theory Spec2Isabelle
  imports Complex_Main
begin

section \<open>Data model (types.ts)\<close>

text \<open>
  The TypeScript interfaces become records. Field names are the source's; where two
  interfaces share a field name (\<open>id\<close>, \<open>type\<close>, \<open>title\<close>, \<open>uri\<close>, \<open>timestamp\<close>, \<open>text\<close>) all but
  one occurrence carry a suffix naming the interface.

  \<open>SuggestionType\<close> and \<open>historyDepth\<close> are string-literal unions in the source. They are
  erased at run time and the analyzer's payload is only cast (\<open>JSON.parse(text) as
  AnalysisResult\<close>), so both are strings here: the router's fallback branch for a value
  outside the six categories is then part of the model.
\<close>

datatype Role = RoleUser | RoleModel | RoleSystem

datatype MessageType = TypeText | TypeToolResult | TypeError

record SourceUrl =
  title_src :: string
  uri_src :: string

record Metadata =
  suggestionType :: "string option"
  executionTime :: "nat option"
  modelUsed_md :: "string option"
  sourceUrls_md :: "SourceUrl list option"

record Message =
  id_msg :: string
  role :: Role
  content :: string
  timestamp_msg :: nat
  type_msg :: "MessageType option"
  metadata :: "Metadata option"

text \<open>
  \<open>id\<close> is declared \<open>string\<close>, but the response schema sent to the analyzer has no \<open>id\<close>
  property, so a suggestion that comes from the analyzer may lack it.
\<close>

record Suggestion =
  id_sug :: "string option"
  type :: string
  title :: string
  description :: string
  reasoning :: string
  confidence :: real

text \<open>\<open>dialecticalOpportunity\<close> is not among the schema's required properties.\<close>

record AnalysisResult =
  patternsDetected :: "string list"
  historyDepth :: string
  contextContinuity :: string
  dialecticalOpportunity :: "string option"
  suggestions :: "Suggestion list"

datatype LogType = LogInfo | LogSuccess | LogWarning | LogPattern

record AnalysisLogEntry =
  id_log :: string
  timestamp_log :: nat
  message :: string
  type_log :: LogType

record EngineState =
  isActive :: bool
  isAnalyzing :: bool
  isExecuting :: bool
  logs :: "AnalysisLogEntry list"
  currentSuggestions :: "Suggestion list"

section \<open>The provider interface (@google/genai, as far as the source uses it)\<close>

datatype SchemaType = OBJECT | ARRAY | STRING | NUMBER

text \<open>A schema object; a property the source leaves out is \<open>None\<close> or the empty list.\<close>

datatype Schema =
  Schema (type_sch: SchemaType) (description_sch: "string option")
    (properties: "(string \<times> Schema) list") (items: "Schema option")
    (enum: "string list") (required: "string list")

text \<open>
  JSON values, and what it means for one to conform to a schema, as the provider's
  structured output understands the schema object: the type, for a string the \<open>enum\<close> when
  there is one, for an array the schema of the items, for an object the required
  properties and the schemas of the listed properties that are present.
\<close>

datatype json =
    JNull
  | JBool bool
  | JNumber real
  | JString string
  | JArray "json list"
  | JObject "(string \<times> json) list"

fun conforms :: "Schema \<Rightarrow> json \<Rightarrow> bool" where
  "conforms (Schema STRING d ps it en rq) j =
     (case j of JString s \<Rightarrow> en = [] \<or> s \<in> set en | _ \<Rightarrow> False)"
| "conforms (Schema NUMBER d ps it en rq) j =
     (case j of JNumber x \<Rightarrow> True | _ \<Rightarrow> False)"
| "conforms (Schema ARRAY d ps it en rq) j =
     (case j of
        JArray xs \<Rightarrow> (case it of None \<Rightarrow> True | Some sch \<Rightarrow> list_all (conforms sch) xs)
      | _ \<Rightarrow> False)"
| "conforms (Schema OBJECT d ps it en rq) j =
     (case j of
        JObject fs \<Rightarrow>
          list_all (\<lambda>k. map_of fs k \<noteq> None) rq
          \<and> list_all (\<lambda>(k, sch). case map_of fs k of None \<Rightarrow> True | Some v \<Rightarrow> conforms sch v) ps
      | _ \<Rightarrow> False)"

record FunctionDeclaration =
  name_fd :: string
  description_fd :: string
  parameters :: Schema

datatype Tool = GoogleSearch | FunctionDeclarations "FunctionDeclaration list"

record ThinkingConfig =
  thinkingBudget :: nat

record GenerateContentConfig =
  systemInstruction :: "string option"
  responseMimeType :: "string option"
  responseSchema :: "Schema option"
  temperature :: "real option"
  tools :: "Tool list option"
  thinkingConfig :: "ThinkingConfig option"

record GenerateContentParameters =
  model :: string
  contents :: string
  config :: GenerateContentConfig

text \<open>
  The response, with the optional chain the source walks:
  \<open>candidates?.[0]?.content?.parts?.[0]?.functionCall\<close> and
  \<open>candidates?.[0]?.groundingMetadata?.groundingChunks\<close>. Of a function call the source
  reads the name only.
\<close>

record FunctionCall =
  name_fc :: "string option"

record Part =
  functionCall :: "FunctionCall option"

record Content =
  parts :: "Part list option"

record WebChunk =
  uri_web :: "string option"
  title_web :: "string option"

record GroundingChunk =
  web :: "WebChunk option"

record GroundingMetadata =
  groundingChunks :: "GroundingChunk list option"

record Candidate =
  content_cand :: "Content option"
  groundingMetadata :: "GroundingMetadata option"

record GenerateContentResponse =
  text_rsp :: "string option"
  candidates :: "Candidate list option"

text \<open>A thrown value: a JavaScript \<open>Error\<close> with its message.\<close>

datatype error = Error (message_err: string)

text \<open>
  The provider is outside the repository. It is a parameter: a function from the requests
  issued so far (the last one being the current request) to the outcome of the current
  request, \<open>Inl\<close> for a rejected promise. The services thread the list of issued requests, so
  that the number and the content of round-trips can be stated.
\<close>

type_synonym Provider = "GenerateContentParameters list \<Rightarrow> error + GenerateContentResponse"

definition generateContent ::
  "Provider \<Rightarrow> GenerateContentParameters list \<Rightarrow> GenerateContentParameters
    \<Rightarrow> (error + GenerateContentResponse) \<times> GenerateContentParameters list" where
  "generateContent P calls req = (P (calls @ [req]), calls @ [req])"

definition no_config :: GenerateContentConfig where
  "no_config = \<lparr>systemInstruction = None, responseMimeType = None, responseSchema = None,
     temperature = None, tools = None, thinkingConfig = None\<rparr>"

section \<open>JavaScript helpers\<close>

definition nl :: string where
  "nl = [CHR 0x0A]"

text \<open>\<open>Array.prototype.join\<close>.\<close>

fun join :: "string \<Rightarrow> string list \<Rightarrow> string" where
  "join sep [] = []"
| "join sep [x] = x"
| "join sep (x # y # ys) = x @ sep @ join sep (y # ys)"

text \<open>\<open>a || b\<close> on an optional string: \<open>undefined\<close> and the empty string are falsy.\<close>

definition or_default :: "string option \<Rightarrow> string \<Rightarrow> string" where
  "or_default a b = (case a of None \<Rightarrow> b | Some s \<Rightarrow> if s = [] then b else s)"

text \<open>\<open>xs?.[0]\<close> on an optional array.\<close>

definition first_opt :: "'a list option \<Rightarrow> 'a option" where
  "first_opt xs = (case xs of None \<Rightarrow> None | Some [] \<Rightarrow> None | Some (x # _) \<Rightarrow> Some x)"

definition role_str :: "Role \<Rightarrow> string" where
  "role_str r = (case r of RoleUser \<Rightarrow> ''user'' | RoleModel \<Rightarrow> ''model'' | RoleSystem \<Rightarrow> ''system'')"

text \<open>\<open>toUpperCase\<close>, on the ASCII letters (the roles have no other characters).\<close>

definition toUpperCase :: "string \<Rightarrow> string" where
  "toUpperCase s = map (\<lambda>c. if 97 \<le> (of_char c :: nat) \<and> (of_char c :: nat) \<le> 122
                              then char_of ((of_char c :: nat) - 32) else c) s"

section \<open>services/geminiService.ts\<close>

text \<open>
  The repository holds two versions of the service. The first (\<open>part_000\<close>, lines 302 to
  462) exposes web search and extracts citations; the second (lines 464 to 648) exposes a
  function tool and answers one function call. Definitions of the second version carry
  the suffix \<open>_tools\<close>.
\<close>

definition SYSTEM_INSTRUCTION_ANALYSIS :: string where
  "SYSTEM_INSTRUCTION_ANALYSIS = nl
   @ ''You are the Mycelial Suggestion Engine. Your purpose is not to answer directly, but to analyze the conversation substrate and sprout potential paths forward.'' @ nl
   @ nl
   @ ''Principles:'' @ nl
   @ ''1. Treat every input as a spore that must be compared against the entire conversation history.'' @ nl
   @ ''2. Identify patterns: Question, Imperative, Continuation, Disagreement.'' @ nl
   @ ''3. Detect opportunities for:'' @ nl
   @ ''   - Clarification (Ambiguity?)'' @ nl
   @ ''   - Expansion (Depth available?)'' @ nl
   @ ''   - Creation (Artifact needed?)'' @ nl
   @ ''   - Connection (Related to previous topic? New context needed?)'' @ nl
   @ ''   - Challenge (Is there a dialectical opposite?)'' @ nl
   @ ''   - Crystallization (Can we summarize the core essence?)'' @ nl
   @ nl
   @ ''Output MUST be a JSON object with:'' @ nl
   @ ''- patternsDetected: list of strings'' @ nl
   @ ''- historyDepth: 'shallow' | 'medium' | 'deep'' @ [CHR 0x27] @ nl
   @ ''- contextContinuity: description of how this links to past'' @ nl
   @ ''- dialecticalOpportunity: description of a potential counter-point'' @ nl
   @ ''- suggestions: Array of exactly 5 suggestions covering different types from [Clarify, Expand, Create, Connect, Challenge, Crystallize].'' @ nl"

definition SYSTEM_INSTRUCTION_ANALYSIS_tools :: string where
  "SYSTEM_INSTRUCTION_ANALYSIS_tools = nl
   @ ''You are the Mycelial Suggestion Engine. Your purpose is not to answer directly, but to analyze the conversation substrate and sprout potential paths forward.'' @ nl
   @ nl
   @ ''Principles:'' @ nl
   @ ''1. Treat every input as a spore that must be compared against the entire conversation history.'' @ nl
   @ ''2. Identify patterns: Question, Imperative, Continuation, Disagreement.'' @ nl
   @ ''3. Detect opportunities for:'' @ nl
   @ ''   - Clarification (Ambiguity?)'' @ nl
   @ ''   - Expansion (Depth available?)'' @ nl
   @ ''   - Creation (Artifact needed?)'' @ nl
   @ ''   - Connection (Related to previous topic?)'' @ nl
   @ ''   - Challenge (Is there a dialectical opposite?)'' @ nl
   @ ''   - Crystallization (Can we summarize the core essence?)'' @ nl
   @ nl
   @ ''Output MUST be a JSON object with:'' @ nl
   @ ''- patternsDetected: list of strings'' @ nl
   @ ''- historyDepth: 'shallow' | 'medium' | 'deep'' @ [CHR 0x27] @ nl
   @ ''- contextContinuity: description of how this links to past'' @ nl
   @ ''- dialecticalOpportunity: description of a potential counter-point'' @ nl
   @ ''- suggestions: Array of exactly 5 suggestions covering different types from [Clarify, Expand, Create, Connect, Challenge, Crystallize].'' @ nl"

definition str_schema :: Schema where
  "str_schema = Schema STRING None [] None [] []"

definition suggestionTypeEnum :: "string list" where
  "suggestionTypeEnum = [''Clarify'', ''Expand'', ''Create'', ''Connect'', ''Challenge'', ''Crystallize'']"

definition historyDepthEnum :: "string list" where
  "historyDepthEnum = [''shallow'', ''medium'', ''deep'']"

text \<open>The schema of the items of \<open>suggestions\<close> (lines 336 to 346), and \<open>analysisSchema\<close>.\<close>

definition suggestionSchema :: Schema where
  "suggestionSchema =
     Schema OBJECT None
       [(''type'', Schema STRING None [] None suggestionTypeEnum []),
        (''title'', str_schema),
        (''description'', str_schema),
        (''reasoning'', str_schema),
        (''confidence'', Schema NUMBER None [] None [] [])]
       None []
       [''type'', ''title'', ''description'', ''reasoning'', ''confidence'']"

definition analysisSchema :: Schema where
  "analysisSchema =
     Schema OBJECT None
       [(''patternsDetected'', Schema ARRAY None [] (Some str_schema) [] []),
        (''historyDepth'', Schema STRING None [] None historyDepthEnum []),
        (''contextContinuity'', str_schema),
        (''dialecticalOpportunity'', str_schema),
        (''suggestions'', Schema ARRAY None [] (Some suggestionSchema) [] [])]
       None []
       [''patternsDetected'', ''suggestions'', ''historyDepth'', ''contextContinuity'']"

definition searchDriveTool :: FunctionDeclaration where
  "searchDriveTool =
     \<lparr>name_fd = ''searchDrive'',
      description_fd = ''Search the user's Google Drive for relevant documents.'',
      parameters =
        Schema OBJECT None
          [(''query'', Schema STRING (Some ''The search query.'') [] None [] []),
           (''fileType'',
              Schema STRING (Some ''Optional file type filter (docs, sheets, slides).'') [] None [] [])]
          None [] [''query'']\<rparr>"

subsection \<open>analyzeContext\<close>

text \<open>
  \<open>JSON.parse\<close> is the platform's. It is a parameter, \<open>Inl\<close> for a \<open>SyntaxError\<close>; its
  result is taken at the type the source casts it to. A text that parses to a value of
  another shape is outside this model.

  The \<open>catch\<close> block logs and rethrows, so every error leaves the function unchanged.
\<close>

definition analyzeContext ::
  "(string \<Rightarrow> error + AnalysisResult) \<Rightarrow> Provider \<Rightarrow> GenerateContentParameters list
    \<Rightarrow> Message list \<Rightarrow> string
    \<Rightarrow> (error + AnalysisResult) \<times> GenerateContentParameters list" where
  "analyzeContext JSON_parse P calls history lastInput =
     (let model' = ''gemini-2.5-flash'';
          historyText =
            join nl (map (\<lambda>m. toUpperCase (role_str (role m)) @ '': '' @ content m) history);
          fullPrompt = ''HISTORY:'' @ nl @ historyText @ nl @ nl @ ''NEW INPUT:'' @ nl
            @ ''USER: '' @ lastInput @ nl @ nl
            @ ''Analyze this context and generate suggestions.'';
          (outcome, calls') =
            generateContent P calls
              \<lparr>model = model', contents = fullPrompt,
               config = no_config
                 \<lparr>systemInstruction := Some SYSTEM_INSTRUCTION_ANALYSIS,
                  responseMimeType := Some ''application/json'',
                  responseSchema := Some analysisSchema,
                  temperature := Some 0.3\<rparr>\<rparr>
      in case outcome of
           Inl e \<Rightarrow> (Inl e, calls')
         | Inr response \<Rightarrow>
             (case text_rsp response of
                None \<Rightarrow> (Inl (Error ''No analysis generated''), calls')
              | Some t \<Rightarrow>
                  if t = [] then (Inl (Error ''No analysis generated''), calls')
                  else (JSON_parse t, calls')))"

text \<open>The second version: the same code with its own instruction constant.\<close>

definition analyzeContext_tools ::
  "(string \<Rightarrow> error + AnalysisResult) \<Rightarrow> Provider \<Rightarrow> GenerateContentParameters list
    \<Rightarrow> Message list \<Rightarrow> string
    \<Rightarrow> (error + AnalysisResult) \<times> GenerateContentParameters list" where
  "analyzeContext_tools JSON_parse P calls history lastInput =
     (let model' = ''gemini-2.5-flash'';
          historyText =
            join nl (map (\<lambda>m. toUpperCase (role_str (role m)) @ '': '' @ content m) history);
          fullPrompt = ''HISTORY:'' @ nl @ historyText @ nl @ nl @ ''NEW INPUT:'' @ nl
            @ ''USER: '' @ lastInput @ nl @ nl
            @ ''Analyze this context and generate suggestions.'';
          (outcome, calls') =
            generateContent P calls
              \<lparr>model = model', contents = fullPrompt,
               config = no_config
                 \<lparr>systemInstruction := Some SYSTEM_INSTRUCTION_ANALYSIS_tools,
                  responseMimeType := Some ''application/json'',
                  responseSchema := Some analysisSchema,
                  temperature := Some 0.3\<rparr>\<rparr>
      in case outcome of
           Inl e \<Rightarrow> (Inl e, calls')
         | Inr response \<Rightarrow>
             (case text_rsp response of
                None \<Rightarrow> (Inl (Error ''No analysis generated''), calls')
              | Some t \<Rightarrow>
                  if t = [] then (Inl (Error ''No analysis generated''), calls')
                  else (JSON_parse t, calls')))"

text \<open>
  A payload of the result type conforms to \<open>analysisSchema\<close> when the JSON value it is the
  cast of does. A field that is absent gives no property.
\<close>

definition optional_field :: "string \<Rightarrow> string option \<Rightarrow> (string \<times> json) list" where
  "optional_field k v = (case v of None \<Rightarrow> [] | Some s \<Rightarrow> [(k, JString s)])"

definition suggestion_json :: "Suggestion \<Rightarrow> json" where
  "suggestion_json s =
     JObject (optional_field ''id'' (id_sug s)
       @ [(''type'', JString (type s)), (''title'', JString (title s)),
          (''description'', JString (description s)), (''reasoning'', JString (reasoning s)),
          (''confidence'', JNumber (confidence s))])"

definition analysis_json :: "AnalysisResult \<Rightarrow> json" where
  "analysis_json r =
     JObject ([(''patternsDetected'', JArray (map JString (patternsDetected r))),
               (''historyDepth'', JString (historyDepth r)),
               (''contextContinuity'', JString (contextContinuity r))]
       @ optional_field ''dialecticalOpportunity'' (dialecticalOpportunity r)
       @ [(''suggestions'', JArray (map suggestion_json (suggestions r)))])"

definition conformsAnalysisSchema :: "AnalysisResult \<Rightarrow> bool" where
  "conformsAnalysisSchema r = conforms analysisSchema (analysis_json r)"

subsection \<open>executeSuggestion, first version\<close>

record ExecResult =
  text_res :: string
  modelUsed :: string
  sourceUrls :: "SourceUrl list option"

text \<open>The configuration block (lines 393 to 410): the model and the \<open>config\<close> object.\<close>

definition route :: "string \<Rightarrow> string \<times> GenerateContentConfig" where
  "route t =
     (let config0 = no_config\<lparr>temperature := Some 0.7\<rparr>
      in if t \<in> set [''Create'', ''Challenge'', ''Crystallize'']
         then (''gemini-3-pro-preview'',
               config0\<lparr>thinkingConfig := Some \<lparr>thinkingBudget = 32768\<rparr>\<rparr>)
         else if t \<in> set [''Expand'', ''Connect'']
         then (''gemini-2.5-flash'', config0\<lparr>tools := Some [GoogleSearch]\<rparr>)
         else (''gemini-2.5-flash'', config0))"

definition taskPrompt :: "Suggestion \<Rightarrow> Message list \<Rightarrow> string \<Rightarrow> string" where
  "taskPrompt suggestion history lastInput = nl
     @ ''        TASK: Execute the following suggestion:'' @ nl
     @ ''        Type: '' @ type suggestion @ nl
     @ ''        Title: '' @ title suggestion @ nl
     @ ''        Description: '' @ description suggestion @ nl
     @ ''        Reasoning: '' @ reasoning suggestion @ nl
     @ ''        '' @ nl
     @ ''        CONTEXT:'' @ nl
     @ ''        '' @ join nl (map (\<lambda>m. role_str (role m) @ '': '' @ content m) history) @ nl
     @ ''        USER: '' @ lastInput @ nl
     @ ''        '' @ nl
     @ ''        INSTRUCTIONS:'' @ nl
     @ ''        Perform the suggested action comprehensively.'' @ nl
     @ ''        - If 'Create': Provide the full code, text, or artifact.'' @ nl
     @ ''        - If 'Challenge': Provide a dialectical antithesis or counter-argument.'' @ nl
     @ ''        - If 'Crystallize': Distill the conversation into its core essence/insight.'' @ nl
     @ ''        - If 'Expand'/'Connect': Use search tools if needed to provide accurate, up-to-date context.'' @ nl
     @ ''        - If 'Clarify': Ask the necessary questions to resolve ambiguity.'' @ nl
     @ ''      ''"

text \<open>
  Citation extraction (lines 438 to 450). \<open>pushChunk\<close> is the body of the \<open>forEach\<close>
  callback: \<open>chunk.web?.uri\<close> is falsy when \<open>web\<close> or \<open>uri\<close> is absent or the uri is the empty
  string.
\<close>

definition pushChunk :: "SourceUrl list \<Rightarrow> GroundingChunk \<Rightarrow> SourceUrl list" where
  "pushChunk acc chunk =
     (case web chunk of
        None \<Rightarrow> acc
      | Some w \<Rightarrow>
          (case uri_web w of
             None \<Rightarrow> acc
           | Some u \<Rightarrow>
               if u = [] then acc
               else acc @ [\<lparr>title_src = or_default (title_web w) ''Source'', uri_src = u\<rparr>]))"

definition groundingChunks_of :: "GenerateContentResponse \<Rightarrow> GroundingChunk list option" where
  "groundingChunks_of response =
     (case first_opt (candidates response) of
        None \<Rightarrow> None
      | Some c \<Rightarrow> (case groundingMetadata c of None \<Rightarrow> None | Some g \<Rightarrow> groundingChunks g))"

definition extractSourceUrls :: "GenerateContentResponse \<Rightarrow> SourceUrl list" where
  "extractSourceUrls response =
     (case groundingChunks_of response of
        None \<Rightarrow> []
      | Some chunks \<Rightarrow> foldl pushChunk [] chunks)"

text \<open>The \<open>try\<close> block, \<open>Inl\<close> when it throws.\<close>

definition executeSuggestion_try ::
  "Provider \<Rightarrow> GenerateContentParameters list \<Rightarrow> Suggestion \<Rightarrow> Message list \<Rightarrow> string
    \<Rightarrow> (error + ExecResult) \<times> GenerateContentParameters list" where
  "executeSuggestion_try P calls suggestion history lastInput =
     (let (model', config') = route (type suggestion);
          prompt = taskPrompt suggestion history lastInput;
          (outcome, calls') =
            generateContent P calls \<lparr>model = model', contents = prompt, config = config'\<rparr>
      in case outcome of
           Inl e \<Rightarrow> (Inl e, calls')
         | Inr response \<Rightarrow>
             (let urls = extractSourceUrls response
              in (Inr \<lparr>text_res = or_default (text_rsp response) ''No response generated.'',
                       modelUsed = model',
                       sourceUrls = (if length urls > 0 then Some urls else None)\<rparr>,
                  calls')))"

definition executionError :: ExecResult where
  "executionError =
     \<lparr>text_res = ''Error executing suggestion. Please try again.'', modelUsed = ''error'',
      sourceUrls = None\<rparr>"

definition executeSuggestion ::
  "Provider \<Rightarrow> GenerateContentParameters list \<Rightarrow> Suggestion \<Rightarrow> Message list \<Rightarrow> string
    \<Rightarrow> ExecResult \<times> GenerateContentParameters list" where
  "executeSuggestion P calls suggestion history lastInput =
     (case executeSuggestion_try P calls suggestion history lastInput of
        (Inl e, calls') \<Rightarrow> (executionError, calls')
      | (Inr result, calls') \<Rightarrow> (result, calls'))"

subsection \<open>executeSuggestion, second version\<close>

definition isComplex :: "string \<Rightarrow> bool" where
  "isComplex t = (t \<in> set [''Create'', ''Challenge'', ''Crystallize''])"

definition needsSearch :: "string \<Rightarrow> bool" where
  "needsSearch t = (t = ''Expand'' \<or> t = ''Connect'')"

text \<open>The configuration block (lines 571 to 591).\<close>

definition route_tools :: "string \<Rightarrow> string \<times> GenerateContentConfig" where
  "route_tools t =
     (let config0 = no_config\<lparr>temperature := Some 0.7\<rparr>
      in if isComplex t
         then (''gemini-3-pro-preview'',
               config0\<lparr>thinkingConfig := Some \<lparr>thinkingBudget = 32768\<rparr>\<rparr>)
         else if needsSearch t
         then (''gemini-2.5-flash'',
               config0\<lparr>tools := Some [FunctionDeclarations [searchDriveTool]]\<rparr>)
         else (''gemini-2.5-flash'', config0))"

definition taskPrompt_tools :: "Suggestion \<Rightarrow> Message list \<Rightarrow> string \<Rightarrow> string" where
  "taskPrompt_tools suggestion history lastInput = nl
     @ ''        TASK: Execute the following suggestion:'' @ nl
     @ ''        Type: '' @ type suggestion @ nl
     @ ''        Title: '' @ title suggestion @ nl
     @ ''        Description: '' @ description suggestion @ nl
     @ ''        '' @ nl
     @ ''        CONTEXT:'' @ nl
     @ ''        '' @ join nl (map (\<lambda>m. role_str (role m) @ '': '' @ content m) history) @ nl
     @ ''        USER: '' @ lastInput @ nl
     @ ''        '' @ nl
     @ ''        INSTRUCTIONS:'' @ nl
     @ ''        Perform the suggested action comprehensively. '' @ nl
     @ ''        If the type is 'Create', provide the code or artifact clearly.'' @ nl
     @ ''        If 'Challenge', be dialectical and offer the antithesis.'' @ nl
     @ ''        If 'Crystallize', summarize the essence.'' @ nl
     @ ''      ''"

text \<open>\<open>JSON.stringify(mockFiles)\<close>, a constant.\<close>

definition mockFiles_json :: string where
  "mockFiles_json =
     ''[{\"title\":\"Project Alpha Specs.pdf\",\"snippet\":\"Specs for the new engine...\"},''
     @ ''{\"title\":\"Meeting Notes 2024.docx\",\"snippet\":\"Discussed Q4 goals...\"}]''"

definition toolResult_suffix :: string where
  "toolResult_suffix = nl @ nl @ ''TOOL RESULT (searchDrive): Found files: '' @ mockFiles_json
     @ ''. Incorporate this into your answer.''"

definition functionCall_of :: "GenerateContentResponse \<Rightarrow> FunctionCall option" where
  "functionCall_of response =
     (case first_opt (candidates response) of
        None \<Rightarrow> None
      | Some c \<Rightarrow>
          (case content_cand c of
             None \<Rightarrow> None
           | Some ct \<Rightarrow> (case first_opt (parts ct) of None \<Rightarrow> None | Some p \<Rightarrow> functionCall p)))"

definition executeSuggestion_tools_try ::
  "Provider \<Rightarrow> GenerateContentParameters list \<Rightarrow> Suggestion \<Rightarrow> Message list \<Rightarrow> string
    \<Rightarrow> (error + ExecResult) \<times> GenerateContentParameters list" where
  "executeSuggestion_tools_try P calls suggestion history lastInput =
     (let (model', config') = route_tools (type suggestion);
          prompt = taskPrompt_tools suggestion history lastInput;
          (outcome, calls1) =
            generateContent P calls \<lparr>model = model', contents = prompt, config = config'\<rparr>
      in case outcome of
           Inl e \<Rightarrow> (Inl e, calls1)
         | Inr response \<Rightarrow>
             (let plain = (Inr \<lparr>text_res = or_default (text_rsp response) ''No response generated.'',
                                modelUsed = model', sourceUrls = None\<rparr>, calls1)
              in case functionCall_of response of
                   None \<Rightarrow> plain
                 | Some fc \<Rightarrow>
                     if name_fc fc = Some ''searchDrive''
                     then
                       (let followUpPrompt = prompt @ toolResult_suffix;
                            (outcome2, calls2) =
                              generateContent P calls1
                                \<lparr>model = model', contents = followUpPrompt,
                                 config = no_config
                                   \<lparr>thinkingConfig :=
                                      (if isComplex (type suggestion)
                                       then Some \<lparr>thinkingBudget = 16000\<rparr> else None)\<rparr>\<rparr>
                        in case outcome2 of
                             Inl e \<Rightarrow> (Inl e, calls2)
                           | Inr followUpResponse \<Rightarrow>
                               (Inr \<lparr>text_res = or_default (text_rsp followUpResponse)
                                                 ''Error processing tool result.'',
                                     modelUsed = model', sourceUrls = None\<rparr>,
                                calls2))
                     else plain))"

definition executeSuggestion_tools ::
  "Provider \<Rightarrow> GenerateContentParameters list \<Rightarrow> Suggestion \<Rightarrow> Message list \<Rightarrow> string
    \<Rightarrow> ExecResult \<times> GenerateContentParameters list" where
  "executeSuggestion_tools P calls suggestion history lastInput =
     (case executeSuggestion_tools_try P calls suggestion history lastInput of
        (Inl e, calls') \<Rightarrow> (executionError, calls')
      | (Inr result, calls') \<Rightarrow> (result, calls'))"

subsection \<open>The first request of each method\<close>

text \<open>
  Each method builds its first request and calls \<open>generateContent\<close> before its first \<open>await\<close>:
  the request is issued in the synchronous part of the call, and so in the synchronous
  part of the handler that makes the call. These are the requests the definitions above
  build.
\<close>

definition analysisRequest :: "Message list \<Rightarrow> string \<Rightarrow> GenerateContentParameters" where
  "analysisRequest history lastInput =
     \<lparr>model = ''gemini-2.5-flash'',
      contents = ''HISTORY:'' @ nl
        @ join nl (map (\<lambda>m. toUpperCase (role_str (role m)) @ '': '' @ content m) history)
        @ nl @ nl @ ''NEW INPUT:'' @ nl @ ''USER: '' @ lastInput @ nl @ nl
        @ ''Analyze this context and generate suggestions.'',
      config = no_config
        \<lparr>systemInstruction := Some SYSTEM_INSTRUCTION_ANALYSIS,
         responseMimeType := Some ''application/json'',
         responseSchema := Some analysisSchema,
         temperature := Some 0.3\<rparr>\<rparr>"

definition firstRequest ::
  "Suggestion \<Rightarrow> Message list \<Rightarrow> string \<Rightarrow> GenerateContentParameters" where
  "firstRequest s h i =
     \<lparr>model = fst (route (type s)), contents = taskPrompt s h i, config = snd (route (type s))\<rparr>"

definition firstRequest_tools ::
  "Suggestion \<Rightarrow> Message list \<Rightarrow> string \<Rightarrow> GenerateContentParameters" where
  "firstRequest_tools s h i =
     \<lparr>model = fst (route_tools (type s)), contents = taskPrompt_tools s h i,
      config = snd (route_tools (type s))\<rparr>"

definition analysisRequest_tools :: "Message list \<Rightarrow> string \<Rightarrow> GenerateContentParameters" where
  "analysisRequest_tools history lastInput =
     \<lparr>model = ''gemini-2.5-flash'',
      contents = ''HISTORY:'' @ nl
        @ join nl (map (\<lambda>m. toUpperCase (role_str (role m)) @ '': '' @ content m) history)
        @ nl @ nl @ ''NEW INPUT:'' @ nl @ ''USER: '' @ lastInput @ nl @ nl
        @ ''Analyze this context and generate suggestions.'',
      config = no_config
        \<lparr>systemInstruction := Some SYSTEM_INSTRUCTION_ANALYSIS_tools,
         responseMimeType := Some ''application/json'',
         responseSchema := Some analysisSchema,
         temperature := Some 0.3\<rparr>\<rparr>"

section \<open>App.tsx\<close>

text \<open>
  \<open>crypto.randomUUID()\<close> and \<open>Date.now()\<close> are the environment's: two functions of the number
  of draws made so far.
\<close>

record Env =
  randomUUID :: "nat \<Rightarrow> string"
  now :: "nat \<Rightarrow> nat"

text \<open>
  The component imports \<open>geminiService\<close> from the service module; it is a parameter here,
  so that either version of the service can be plugged in. A method is given by the whole
  call (its result and the requests issued when it has settled) and by the request that
  its synchronous part issues.
\<close>

record GeminiService =
  analyzeContext_svc ::
    "Provider \<Rightarrow> GenerateContentParameters list \<Rightarrow> Message list \<Rightarrow> string
      \<Rightarrow> (error + AnalysisResult) \<times> GenerateContentParameters list"
  executeSuggestion_svc ::
    "Provider \<Rightarrow> GenerateContentParameters list \<Rightarrow> Suggestion \<Rightarrow> Message list \<Rightarrow> string
      \<Rightarrow> ExecResult \<times> GenerateContentParameters list"
  analyzeContext_request :: "Message list \<Rightarrow> string \<Rightarrow> GenerateContentParameters"
  executeSuggestion_request ::
    "Suggestion \<Rightarrow> Message list \<Rightarrow> string \<Rightarrow> GenerateContentParameters"

definition geminiService :: "(string \<Rightarrow> error + AnalysisResult) \<Rightarrow> GeminiService" where
  "geminiService JSON_parse =
     \<lparr>analyzeContext_svc = analyzeContext JSON_parse, executeSuggestion_svc = executeSuggestion,
      analyzeContext_request = analysisRequest, executeSuggestion_request = firstRequest\<rparr>"

definition geminiService_tools :: "(string \<Rightarrow> error + AnalysisResult) \<Rightarrow> GeminiService" where
  "geminiService_tools JSON_parse =
     \<lparr>analyzeContext_svc = analyzeContext_tools JSON_parse,
      executeSuggestion_svc = executeSuggestion_tools,
      analyzeContext_request = analysisRequest_tools,
      executeSuggestion_request = firstRequest_tools\<rparr>"

text \<open>
  An \<open>async\<close> handler runs up to its \<open>await\<close>, and its continuation runs when the service
  call settles. By then the call has issued its first request. A suspended handler is a
  task holding the arguments of its service call, which are evaluated before the \<open>await\<close>,
  and the requests that had been issued before the call.

  In an event handler React queues the state updates and applies them, in order, when the
  synchronous part of the handler ends. The \<open>_begin\<close> part of a handler gives the state
  after that: the queued updates applied and the first request issued.
\<close>

datatype Task =
    AwaitAnalysis "Message list" string "GenerateContentParameters list"
  | AwaitReply "Message list" string "GenerateContentParameters list"
  | AwaitExecution Suggestion "Message list" string "GenerateContentParameters list"

text \<open>
  The component's state: the four \<open>useState\<close> cells, and with them the suspended handlers,
  the requests issued to the provider so far and the number of draws from the environment.
  \<open>messagesRef.current\<close> is \<open>messages\<close> as of the last render, that is, as of the start of
  the handler that reads it.
\<close>

record AppState =
  messages :: "Message list"
  input :: string
  engineActive :: bool
  engineState :: EngineState
  pending :: "Task list"
  requests :: "GenerateContentParameters list"
  draws :: nat

definition initialState :: AppState where
  "initialState =
     \<lparr>messages = [], input = [], engineActive = True,
      engineState = \<lparr>isActive = True, isAnalyzing = False, isExecuting = False, logs = [],
                      currentSuggestions = []\<rparr>,
      pending = [], requests = [], draws = 0\<rparr>"

definition setEngineState :: "(EngineState \<Rightarrow> EngineState) \<Rightarrow> AppState \<Rightarrow> AppState" where
  "setEngineState f st = st\<lparr>engineState := f (engineState st)\<rparr>"

definition addLog :: "Env \<Rightarrow> string \<Rightarrow> LogType \<Rightarrow> AppState \<Rightarrow> AppState" where
  "addLog env msg ty st =
     (setEngineState
        (\<lambda>prev. prev\<lparr>logs := logs prev @
           [\<lparr>id_log = randomUUID env (draws st), timestamp_log = now env (draws st),
             message = msg, type_log = ty\<rparr>]\<rparr>) st)
     \<lparr>draws := Suc (draws st)\<rparr>"

text \<open>
  \<open>String.prototype.trim\<close> strips white space and line terminators from both ends: U+0009 to
  U+000D, U+0020, U+00A0, U+1680, U+2000 to U+200A, U+2028, U+2029, U+202F, U+205F, U+3000
  and U+FEFF. A string is its UTF-8 bytes here, so these are the UTF-8 codes of those
  characters; at the end of the string they are matched reversed, on the reversed string.
\<close>

definition whiteSpaceCodes :: "string list" where
  "whiteSpaceCodes =
     [[CHR 0x09], [CHR 0x0A], [CHR 0x0B], [CHR 0x0C], [CHR 0x0D], [CHR 0x20],
      [CHR 0xC2, CHR 0xA0],
      [CHR 0xE1, CHR 0x9A, CHR 0x80],
      [CHR 0xE2, CHR 0x80, CHR 0x80], [CHR 0xE2, CHR 0x80, CHR 0x81],
      [CHR 0xE2, CHR 0x80, CHR 0x82], [CHR 0xE2, CHR 0x80, CHR 0x83],
      [CHR 0xE2, CHR 0x80, CHR 0x84], [CHR 0xE2, CHR 0x80, CHR 0x85],
      [CHR 0xE2, CHR 0x80, CHR 0x86], [CHR 0xE2, CHR 0x80, CHR 0x87],
      [CHR 0xE2, CHR 0x80, CHR 0x88], [CHR 0xE2, CHR 0x80, CHR 0x89],
      [CHR 0xE2, CHR 0x80, CHR 0x8A],
      [CHR 0xE2, CHR 0x80, CHR 0xA8], [CHR 0xE2, CHR 0x80, CHR 0xA9],
      [CHR 0xE2, CHR 0x80, CHR 0xAF],
      [CHR 0xE2, CHR 0x81, CHR 0x9F],
      [CHR 0xE3, CHR 0x80, CHR 0x80],
      [CHR 0xEF, CHR 0xBB, CHR 0xBF]]"

function dropCodes :: "string list \<Rightarrow> string \<Rightarrow> string" where
  "dropCodes codes s =
     (case find (\<lambda>w. w \<noteq> [] \<and> take (length w) s = w) codes of
        None \<Rightarrow> s
      | Some w \<Rightarrow> dropCodes codes (drop (length w) s))"
  by pat_completeness auto
termination
proof (relation "measure (\<lambda>(codes, s). length s)")
  show "wf (measure (\<lambda>(codes, s). length s))"
    by simp
next
  fix codes :: "string list" and s w :: string
  assume "find (\<lambda>w. w \<noteq> [] \<and> take (length w) s = w) codes = Some w"
  then have "w \<noteq> []" and "take (length w) s = w"
    by (auto simp: find_Some_iff)
  then have "0 < length w" and "length w \<le> length s"
  proof -
    assume "w \<noteq> []"
    then show "0 < length w" by simp
  next
    assume "take (length w) s = w"
    then have "length w = min (length s) (length w)"
      by (metis length_take)
    then show "length w \<le> length s" by simp
  qed
  then have "length s - length w < length s"
    by linarith
  then show "((codes, drop (length w) s), (codes, s)) \<in> measure (\<lambda>(codes, s). length s)"
    by simp
qed

declare dropCodes.simps [simp del]

definition trim :: "string \<Rightarrow> string" where
  "trim s = rev (dropCodes (map rev whiteSpaceCodes) (rev (dropCodes whiteSpaceCodes s)))"

text \<open>A number in a template literal: its decimal digits.\<close>

fun digits :: "nat \<Rightarrow> string" where
  "digits n = (if n < 10 then [''0123456789'' ! n]
               else digits (n div 10) @ [''0123456789'' ! (n mod 10)])"

declare digits.simps [simp del]

definition newMessage :: "Env \<Rightarrow> AppState \<Rightarrow> Role \<Rightarrow> string \<Rightarrow> Metadata option \<Rightarrow> Message" where
  "newMessage env st r c md =
     \<lparr>id_msg = randomUUID env (draws st), role = r, content = c,
      timestamp_msg = now env (draws st), type_msg = None, metadata = md\<rparr>"

definition setMessages_append :: "Message \<Rightarrow> AppState \<Rightarrow> AppState" where
  "setMessages_append m st = st\<lparr>messages := messages st @ [m], draws := Suc (draws st)\<rparr>"

subsection \<open>processWithEngine\<close>

definition processWithEngine_begin ::
  "Env \<Rightarrow> GeminiService \<Rightarrow> Message list \<Rightarrow> Message \<Rightarrow> AppState \<Rightarrow> AppState \<times> Task" where
  "processWithEngine_begin env svc messagesRef lastUserMessage st =
     (let st1 = setEngineState (\<lambda>prev. prev\<lparr>isAnalyzing := True, currentSuggestions := []\<rparr>) st;
          st2 = addLog env ''Spore detected. Initiating substrate analysis...'' LogInfo st1
      in (st2\<lparr>requests := requests st
                @ [analyzeContext_request svc messagesRef (content lastUserMessage)]\<rparr>,
          AwaitAnalysis messagesRef (content lastUserMessage) (requests st)))"

definition processWithEngine_resume ::
  "Env \<Rightarrow> GeminiService \<Rightarrow> Provider \<Rightarrow> Message list \<Rightarrow> string
    \<Rightarrow> GenerateContentParameters list \<Rightarrow> AppState \<Rightarrow> AppState" where
  "processWithEngine_resume env svc P history lastInput calls st =
     (case analyzeContext_svc svc P calls history lastInput of
        (Inr analysis, calls') \<Rightarrow>
          (let st1 = foldl (\<lambda>s p. addLog env (''Pattern: '' @ p) LogPattern s)
                       (st\<lparr>requests := calls'\<rparr>) (patternsDetected analysis);
               st2 = addLog env (''History Depth: '' @ historyDepth analysis) LogInfo st1;
               st3 = addLog env (''Continuity: '' @ take 50 (contextContinuity analysis) @ ''...'')
                       LogInfo st2;
               st4 = setEngineState
                       (\<lambda>prev. prev\<lparr>isAnalyzing := False,
                                     currentSuggestions := suggestions analysis\<rparr>) st3
           in addLog env (''Generated '' @ digits (length (suggestions analysis))
                            @ '' potential growth paths.'') LogSuccess st4)
      | (Inl e, calls') \<Rightarrow>
          (let st1 = addLog env (''Analysis failed: '' @ message_err e) LogWarning
                       (st\<lparr>requests := calls'\<rparr>)
           in setEngineState (\<lambda>prev. prev\<lparr>isAnalyzing := False\<rparr>) st1))"

subsection \<open>handleSendMessage\<close>

definition standardSuggestion :: Suggestion where
  "standardSuggestion =
     \<lparr>id_sug = Some ''std'', type = ''Expand'', title = ''Reply'',
      description = ''Standard reply'', reasoning = ''Engine off'', confidence = 1\<rparr>"

definition handleSendMessage_begin ::
  "Env \<Rightarrow> GeminiService \<Rightarrow> AppState \<Rightarrow> AppState \<times> Task option" where
  "handleSendMessage_begin env svc st =
     (if trim (input st) = [] \<or> isExecuting (engineState st) then (st, None)
      else
        (let userMsg = newMessage env st RoleUser (input st) None;
             st1 = (setMessages_append userMsg st)\<lparr>input := []\<rparr>
         in if engineActive st
            then (case processWithEngine_begin env svc (messages st) userMsg st1 of
                    (st2, t) \<Rightarrow> (st2, Some t))
            else ((setEngineState (\<lambda>prev. prev\<lparr>isExecuting := True\<rparr>) st1)
                    \<lparr>requests := requests st
                       @ [executeSuggestion_request svc standardSuggestion (messages st)
                            (content userMsg)]\<rparr>,
                  Some (AwaitReply (messages st) (content userMsg) (requests st)))))"

definition handleSendMessage_resume ::
  "Env \<Rightarrow> GeminiService \<Rightarrow> Provider \<Rightarrow> Message list \<Rightarrow> string
    \<Rightarrow> GenerateContentParameters list \<Rightarrow> AppState \<Rightarrow> AppState" where
  "handleSendMessage_resume env svc P history lastInput calls st =
     (case executeSuggestion_svc svc P calls standardSuggestion history lastInput of
        (response, calls') \<Rightarrow>
          (let st1 = st\<lparr>requests := calls'\<rparr>;
               st2 = setMessages_append
                       (newMessage env st1 RoleModel (text_res response)
                          (Some \<lparr>suggestionType = None, executionTime = None,
                                 modelUsed_md = Some (modelUsed response),
                                 sourceUrls_md = sourceUrls response\<rparr>)) st1
           in setEngineState (\<lambda>prev. prev\<lparr>isExecuting := False\<rparr>) st2))"

subsection \<open>handleSuggestionClick\<close>

text \<open>
  The updates that lines 105 to 107 queue, composed in their order.
\<close>

definition handleSuggestionClick_updates :: "Env \<Rightarrow> Suggestion \<Rightarrow> AppState \<Rightarrow> AppState" where
  "handleSuggestionClick_updates env suggestion st =
     (let st1 = setEngineState (\<lambda>prev. prev\<lparr>isExecuting := True, currentSuggestions := []\<rparr>) st;
          st2 = addLog env (''Selected path: '' @ type suggestion @ '' - '' @ title suggestion)
                  LogSuccess st1
      in addLog env ''Weaving response...'' LogInfo st2)"

text \<open>
  Lines 113 to 116, up to the executor's first request: they run in the synchronous part
  of the handler, on the state of the last render, before React applies the queued
  updates. With no message at all \<open>lastMsg\<close> is \<open>undefined\<close> and \<open>lastMsg.content\<close> throws
  inside the \<open>try\<close> block, before any service call.
\<close>

definition handleSuggestionClick_call ::
  "GeminiService \<Rightarrow> Suggestion \<Rightarrow> AppState \<Rightarrow> AppState \<times> Task option" where
  "handleSuggestionClick_call svc suggestion st =
     (if messages st = [] then (st, None)
      else
        (let lastMsg = last (messages st);
             history = butlast (messages st)
         in (st\<lparr>requests := requests st
                 @ [executeSuggestion_request svc suggestion history (content lastMsg)]\<rparr>,
             Some (AwaitExecution suggestion history (content lastMsg) (requests st)))))"

text \<open>
  The state when the synchronous part has ended. When \<open>lastMsg.content\<close> has thrown, the
  \<open>catch\<close> and \<open>finally\<close> blocks have run in it as well.
\<close>

definition handleSuggestionClick_begin ::
  "Env \<Rightarrow> GeminiService \<Rightarrow> Suggestion \<Rightarrow> AppState \<Rightarrow> AppState \<times> Task option" where
  "handleSuggestionClick_begin env svc suggestion st =
     (case handleSuggestionClick_call svc suggestion st of
        (st0, None) \<Rightarrow>
          (setEngineState (\<lambda>prev. prev\<lparr>isExecuting := False\<rparr>)
             (addLog env ''Execution failed.'' LogWarning
                (handleSuggestionClick_updates env suggestion st0)), None)
      | (st0, Some t) \<Rightarrow> (handleSuggestionClick_updates env suggestion st0, Some t))"

definition handleSuggestionClick_resume ::
  "Env \<Rightarrow> GeminiService \<Rightarrow> Provider \<Rightarrow> Suggestion \<Rightarrow> Message list \<Rightarrow> string
    \<Rightarrow> GenerateContentParameters list \<Rightarrow> AppState \<Rightarrow> AppState" where
  "handleSuggestionClick_resume env svc P suggestion history lastInput calls st =
     (case executeSuggestion_svc svc P calls suggestion history lastInput of
        (result, calls') \<Rightarrow>
          (let st1 = st\<lparr>requests := calls'\<rparr>;
               st2 = setMessages_append
                       (newMessage env st1 RoleModel (text_res result)
                          (Some \<lparr>suggestionType = Some (type suggestion), executionTime = None,
                                 modelUsed_md = Some (modelUsed result),
                                 sourceUrls_md = sourceUrls result\<rparr>)) st1;
               st3 = addLog env ''Execution complete.'' LogSuccess st2
           in setEngineState (\<lambda>prev. prev\<lparr>isExecuting := False\<rparr>) st3))"

subsection \<open>Handlers run to completion, and the component as a transition system\<close>

definition resume :: "Env \<Rightarrow> GeminiService \<Rightarrow> Provider \<Rightarrow> Task \<Rightarrow> AppState \<Rightarrow> AppState" where
  "resume env svc P t st =
     (case t of
        AwaitAnalysis history lastInput calls \<Rightarrow>
          processWithEngine_resume env svc P history lastInput calls st
      | AwaitReply history lastInput calls \<Rightarrow>
          handleSendMessage_resume env svc P history lastInput calls st
      | AwaitExecution suggestion history lastInput calls \<Rightarrow>
          handleSuggestionClick_resume env svc P suggestion history lastInput calls st)"

text \<open>The handlers when nothing else happens between the call and its result.\<close>

definition processWithEngine ::
  "Env \<Rightarrow> GeminiService \<Rightarrow> Provider \<Rightarrow> Message list \<Rightarrow> Message \<Rightarrow> AppState \<Rightarrow> AppState" where
  "processWithEngine env svc P messagesRef lastUserMessage st =
     (case processWithEngine_begin env svc messagesRef lastUserMessage st of
        (st', t) \<Rightarrow> resume env svc P t st')"

definition handleSendMessage :: "Env \<Rightarrow> GeminiService \<Rightarrow> Provider \<Rightarrow> AppState \<Rightarrow> AppState" where
  "handleSendMessage env svc P st =
     (case handleSendMessage_begin env svc st of
        (st', None) \<Rightarrow> st'
      | (st', Some t) \<Rightarrow> resume env svc P t st')"

definition handleSuggestionClick ::
  "Env \<Rightarrow> GeminiService \<Rightarrow> Provider \<Rightarrow> Suggestion \<Rightarrow> AppState \<Rightarrow> AppState" where
  "handleSuggestionClick env svc P suggestion st =
     (case handleSuggestionClick_begin env svc suggestion st of
        (st', None) \<Rightarrow> st'
      | (st', Some t) \<Rightarrow> resume env svc P t st')"

text \<open>
  The events the rendered component can deliver. The text input is disabled while
  \<open>isExecuting || isAnalyzing\<close> (line 183), so neither a change nor the Enter key reaches it
  then; the send button is disabled at least as often (line 187). A suggestion card exists
  for each member of \<open>currentSuggestions\<close> when the engine panel is rendered (lines 197 and
  227) and is disabled while \<open>isExecuting\<close> (line 232). The toggle is always enabled.
\<close>

definition inputDisabled :: "AppState \<Rightarrow> bool" where
  "inputDisabled st = (isExecuting (engineState st) \<or> isAnalyzing (engineState st))"

definition cardEnabled :: "Suggestion \<Rightarrow> AppState \<Rightarrow> bool" where
  "cardEnabled s st =
     (engineActive st \<and> s \<in> set (currentSuggestions (engineState st))
      \<and> \<not> isExecuting (engineState st))"

definition suspend :: "Task option \<Rightarrow> AppState \<Rightarrow> AppState" where
  "suspend t st = (case t of None \<Rightarrow> st | Some task \<Rightarrow> st\<lparr>pending := pending st @ [task]\<rparr>)"

inductive step :: "Env \<Rightarrow> GeminiService \<Rightarrow> Provider \<Rightarrow> AppState \<Rightarrow> AppState \<Rightarrow> bool"
  for env svc P where
    change: "\<not> inputDisabled st \<Longrightarrow> step env svc P st (st\<lparr>input := v\<rparr>)"
  | toggle: "step env svc P st (st\<lparr>engineActive := \<not> engineActive st\<rparr>)"
  | send: "\<not> inputDisabled st \<Longrightarrow> handleSendMessage_begin env svc st = (st', t)
            \<Longrightarrow> step env svc P st (suspend t st')"
  | select: "cardEnabled s st \<Longrightarrow> handleSuggestionClick_begin env svc s st = (st', t)
            \<Longrightarrow> step env svc P st (suspend t st')"
  | settle: "t \<in> set (pending st)
            \<Longrightarrow> step env svc P st (resume env svc P t (st\<lparr>pending := remove1 t (pending st)\<rparr>))"

inductive reachable :: "Env \<Rightarrow> GeminiService \<Rightarrow> Provider \<Rightarrow> AppState \<Rightarrow> bool"
  for env svc P where
    start: "reachable env svc P initialState"
  | after: "reachable env svc P st \<Longrightarrow> step env svc P st st' \<Longrightarrow> reachable env svc P st'"

text \<open>The status footer (line 242).\<close>

definition status :: "EngineState \<Rightarrow> string" where
  "status es = (if isExecuting es then ''EXECUTING''
                else if isAnalyzing es then ''ANALYZING'' else ''IDLE'')"

section \<open>Notions used to state the properties\<close>

text \<open>The follow-up request of the tool round-trip, named.\<close>

definition followUpRequest ::
  "Suggestion \<Rightarrow> Message list \<Rightarrow> string \<Rightarrow> GenerateContentParameters" where
  "followUpRequest s h i =
     \<lparr>model = fst (route_tools (type s)),
      contents = taskPrompt_tools s h i @ toolResult_suffix,
      config = no_config
        \<lparr>thinkingConfig :=
           (if isComplex (type s) then Some \<lparr>thinkingBudget = 16000\<rparr> else None)\<rparr>\<rparr>"

text \<open>A text the source treats as missing: \<open>undefined\<close> or the empty string.\<close>

definition absentOrEmpty :: "string option \<Rightarrow> bool" where
  "absentOrEmpty t = (case t of None \<Rightarrow> True | Some s \<Rightarrow> s = [])"

text \<open>The response carries a function call, and one that names the declared tool.\<close>

definition carriesFunctionCall :: "GenerateContentResponse \<Rightarrow> bool" where
  "carriesFunctionCall response = (functionCall_of response \<noteq> None)"

definition requestsSearchDrive :: "GenerateContentResponse \<Rightarrow> bool" where
  "requestsSearchDrive response =
     (case functionCall_of response of
        None \<Rightarrow> False
      | Some fc \<Rightarrow> name_fc fc = Some ''searchDrive'')"

text \<open>
  Citation extraction as the specification words it: a chunk that has a uri (present and
  not empty) gives a record with the chunk's title, or the placeholder when the title is
  missing (absent or empty); a chunk lacking a uri gives nothing.
\<close>

definition citation :: "GroundingChunk \<Rightarrow> SourceUrl option" where
  "citation chunk =
     (case web chunk of
        None \<Rightarrow> None
      | Some w \<Rightarrow>
          (case uri_web w of
             None \<Rightarrow> None
           | Some u \<Rightarrow>
               if u = [] then None
               else Some \<lparr>title_src = (case title_web w of
                                          None \<Rightarrow> ''Source''
                                        | Some t \<Rightarrow> if t = [] then ''Source'' else t),
                          uri_src = u\<rparr>))"

definition citations_spec :: "GenerateContentResponse \<Rightarrow> SourceUrl list option" where
  "citations_spec response =
     (let cs = List.map_filter citation
                 (case groundingChunks_of response of None \<Rightarrow> [] | Some chunks \<Rightarrow> chunks)
      in if cs = [] then None else Some cs)"

text \<open>
  The phases of the component: which handler is suspended, and what the flags and the
  suggestion set are then.
\<close>

definition consistent :: "AppState \<Rightarrow> bool" where
  "consistent st =
     (let es = engineState st
      in case pending st of
           [] \<Rightarrow> \<not> isAnalyzing es \<and> \<not> isExecuting es
         | [AwaitAnalysis h i c] \<Rightarrow>
             isAnalyzing es \<and> \<not> isExecuting es \<and> currentSuggestions es = []
         | [AwaitReply h i c] \<Rightarrow> \<not> isAnalyzing es \<and> isExecuting es
         | [AwaitExecution s h i c] \<Rightarrow>
             \<not> isAnalyzing es \<and> isExecuting es \<and> currentSuggestions es = []
         | _ \<Rightarrow> False)"


text \<open>
  The requests issued when a suspended handler's call is in flight: those issued before
  the call, and the call's first request.
\<close>

definition inFlight :: "GeminiService \<Rightarrow> Task \<Rightarrow> GenerateContentParameters list" where
  "inFlight svc t =
     (case t of
        AwaitAnalysis h i c \<Rightarrow> c @ [analyzeContext_request svc h i]
      | AwaitReply h i c \<Rightarrow> c @ [executeSuggestion_request svc standardSuggestion h i]
      | AwaitExecution s h i c \<Rightarrow> c @ [executeSuggestion_request svc s h i])"


section \<open>Sample inputs\<close>

text \<open>A provider that gives the same outcome to every request.\<close>

definition always :: "error + GenerateContentResponse \<Rightarrow> Provider" where
  "always outcome = (\<lambda>cs. outcome)"

definition sampleEnv :: Env where
  "sampleEnv = \<lparr>randomUUID = (\<lambda>n. ''id-'' @ digits n), now = (\<lambda>n. 1000 + n)\<rparr>"

text \<open>
  Two payloads and their JSON texts. The first conforms to \<open>analysisSchema\<close> and has two
  suggestions of the same category; the second has a category outside the schema's \<open>enum\<close>.
\<close>

definition twoClarifyText :: string where
  "twoClarifyText =
     ''{\"patternsDetected\":[\"Question\"],\"historyDepth\":\"shallow\",''
     @ ''\"contextContinuity\":\"First turn\",\"suggestions\":[''
     @ ''{\"type\":\"Clarify\",\"title\":\"Ask\",\"description\":\"Ask what is meant\",''
     @ ''\"reasoning\":\"Ambiguous\",\"confidence\":1},''
     @ ''{\"type\":\"Clarify\",\"title\":\"Scope\",\"description\":\"Ask for the scope\",''
     @ ''\"reasoning\":\"Ambiguous\",\"confidence\":1}]}''"

definition twoClarify :: AnalysisResult where
  "twoClarify =
     \<lparr>patternsDetected = [''Question''], historyDepth = ''shallow'',
      contextContinuity = ''First turn'', dialecticalOpportunity = None,
      suggestions =
        [\<lparr>id_sug = None, type = ''Clarify'', title = ''Ask'',
          description = ''Ask what is meant'', reasoning = ''Ambiguous'', confidence = 1\<rparr>,
         \<lparr>id_sug = None, type = ''Clarify'', title = ''Scope'',
          description = ''Ask for the scope'', reasoning = ''Ambiguous'', confidence = 1\<rparr>]\<rparr>"

definition offSchemaText :: string where
  "offSchemaText =
     ''{\"patternsDetected\":[],\"historyDepth\":\"shallow\",\"contextContinuity\":\"None\",''
     @ ''\"suggestions\":[{\"type\":\"Summarize\",\"title\":\"Sum up\",''
     @ ''\"description\":\"Sum up the talk\",\"reasoning\":\"Long\",\"confidence\":1}]}''"

definition offSchema :: AnalysisResult where
  "offSchema =
     \<lparr>patternsDetected = [], historyDepth = ''shallow'', contextContinuity = ''None'',
      dialecticalOpportunity = None,
      suggestions =
        [\<lparr>id_sug = None, type = ''Summarize'', title = ''Sum up'',
          description = ''Sum up the talk'', reasoning = ''Long'', confidence = 1\<rparr>]\<rparr>"

text \<open>
  What \<open>JSON.parse\<close> returns on these two texts; it is not asked about any other text in
  the examples, and answers with a \<open>SyntaxError\<close> there.
\<close>

definition sampleParse :: "string \<Rightarrow> error + AnalysisResult" where
  "sampleParse t =
     (if t = twoClarifyText then Inr twoClarify
      else if t = offSchemaText then Inr offSchema
      else Inl (Error ''Unexpected token''))"

definition textResponse :: "string \<Rightarrow> GenerateContentResponse" where
  "textResponse t = \<lparr>text_rsp = Some t, candidates = None\<rparr>"

definition functionCallResponse :: "string \<Rightarrow> GenerateContentResponse" where
  "functionCallResponse n =
     \<lparr>text_rsp = None,
      candidates =
        Some [\<lparr>content_cand = Some \<lparr>parts = Some [\<lparr>functionCall = Some \<lparr>name_fc = Some n\<rparr>\<rparr>]\<rparr>,
               groundingMetadata = None\<rparr>]\<rparr>"

definition groundedResponse :: GenerateContentResponse where
  "groundedResponse =
     \<lparr>text_rsp = Some ''Quicksort partitions the list.'',
      candidates =
        Some [\<lparr>content_cand = None,
               groundingMetadata =
                 Some \<lparr>groundingChunks =
                   Some [\<lparr>web = Some \<lparr>uri_web = Some ''https://a.example'',
                                       title_web = Some ''A''\<rparr>\<rparr>,
                         \<lparr>web = Some \<lparr>uri_web = None, title_web = Some ''B''\<rparr>\<rparr>,
                         \<lparr>web = Some \<lparr>uri_web = Some ''https://c.example'',
                                       title_web = None\<rparr>\<rparr>,
                         \<lparr>web = None\<rparr>]\<rparr>\<rparr>]\<rparr>"

definition createSuggestion :: Suggestion where
  "createSuggestion =
     \<lparr>id_sug = None, type = ''Create'', title = ''Build'', description = ''Write the code'',
      reasoning = ''An artifact is asked for'', confidence = 1\<rparr>"

text \<open>
  States of the component: the first input typed, sent with the engine on, analyzed by a
  provider that answers with the text of \<open>twoClarify\<close>, and the first suggestion selected;
  and a state with the engine off.
\<close>

definition sampleService :: GeminiService where
  "sampleService = geminiService sampleParse"

definition sampleProvider :: Provider where
  "sampleProvider = always (Inr (textResponse twoClarifyText))"

definition sampleUserMessage :: Message where
  "sampleUserMessage =
     \<lparr>id_msg = ''id-0'', role = RoleUser, content = ''Explain quicksort'',
      timestamp_msg = 1000, type_msg = None, metadata = None\<rparr>"

definition typedState :: AppState where
  "typedState = initialState\<lparr>input := ''Explain quicksort''\<rparr>"

definition analyzingState :: AppState where
  "analyzingState =
     suspend (snd (handleSendMessage_begin sampleEnv sampleService typedState))
       (fst (handleSendMessage_begin sampleEnv sampleService typedState))"



definition offState :: AppState where
  "offState = initialState\<lparr>engineActive := False, input := ''hi''\<rparr>"

section \<open>Properties of the services\<close>

subsection \<open>The services, unfolded\<close>

lemma always_apply [simp]: "always outcome cs = outcome"
  by (simp add: always_def)


lemma or_default_present: "a = Some t \<Longrightarrow> t \<noteq> [] \<Longrightarrow> or_default a b = t"
  by (simp add: or_default_def)

lemma analyzeContext_unfold:
  "analyzeContext J P calls h i =
     (case P (calls @ [analysisRequest h i]) of
        Inl e \<Rightarrow> (Inl e, calls @ [analysisRequest h i])
      | Inr response \<Rightarrow>
          (case text_rsp response of
             None \<Rightarrow> (Inl (Error ''No analysis generated''), calls @ [analysisRequest h i])
           | Some t \<Rightarrow>
               if t = [] then (Inl (Error ''No analysis generated''), calls @ [analysisRequest h i])
               else (J t, calls @ [analysisRequest h i])))"
  unfolding analyzeContext_def analysisRequest_def generateContent_def Let_def
  by (simp split: sum.splits option.splits)

lemma pushChunk_citation:
  "pushChunk acc chunk = acc @ (case citation chunk of None \<Rightarrow> [] | Some c \<Rightarrow> [c])"
  by (simp add: pushChunk_def citation_def or_default_def split: option.splits)

lemma foldl_pushChunk: "foldl pushChunk acc chunks = acc @ List.map_filter citation chunks"
  by (induction chunks arbitrary: acc)
     (simp_all add: pushChunk_citation List.map_filter_simps split: option.splits)

lemma extractSourceUrls_eq:
  "extractSourceUrls response =
     List.map_filter citation
       (case groundingChunks_of response of None \<Rightarrow> [] | Some chunks \<Rightarrow> chunks)"
  by (simp add: extractSourceUrls_def foldl_pushChunk List.map_filter_simps split: option.splits)

lemma executeSuggestion_try_unfold:
  "executeSuggestion_try P calls s h i =
     (case P (calls @ [firstRequest s h i]) of
        Inl e \<Rightarrow> (Inl e, calls @ [firstRequest s h i])
      | Inr response \<Rightarrow>
          (Inr \<lparr>text_res = or_default (text_rsp response) ''No response generated.'',
                modelUsed = fst (route (type s)),
                sourceUrls = (if extractSourceUrls response = [] then None
                              else Some (extractSourceUrls response))\<rparr>,
           calls @ [firstRequest s h i]))"
  by (simp add: executeSuggestion_try_def generateContent_def firstRequest_def Let_def
      case_prod_beta split: sum.splits)

lemma executeSuggestion_unfold:
  "executeSuggestion P calls s h i =
     (case P (calls @ [firstRequest s h i]) of
        Inl e \<Rightarrow> (executionError, calls @ [firstRequest s h i])
      | Inr response \<Rightarrow>
          (\<lparr>text_res = or_default (text_rsp response) ''No response generated.'',
            modelUsed = fst (route (type s)),
            sourceUrls = (if extractSourceUrls response = [] then None
                          else Some (extractSourceUrls response))\<rparr>,
           calls @ [firstRequest s h i]))"
  by (simp add: executeSuggestion_def executeSuggestion_try_unfold split: sum.splits)

lemma executeSuggestion_tools_try_unfold:
  "executeSuggestion_tools_try P calls s h i =
     (let req1 = firstRequest_tools s h i; req2 = followUpRequest s h i
      in case P (calls @ [req1]) of
        Inl e \<Rightarrow> (Inl e, calls @ [req1])
      | Inr response \<Rightarrow>
          (if requestsSearchDrive response
           then (case P (calls @ [req1, req2]) of
                   Inl e \<Rightarrow> (Inl e, calls @ [req1, req2])
                 | Inr followUpResponse \<Rightarrow>
                     (Inr \<lparr>text_res = or_default (text_rsp followUpResponse)
                                       ''Error processing tool result.'',
                           modelUsed = fst (route_tools (type s)), sourceUrls = None\<rparr>,
                      calls @ [req1, req2]))
           else (Inr \<lparr>text_res = or_default (text_rsp response) ''No response generated.'',
                      modelUsed = fst (route_tools (type s)), sourceUrls = None\<rparr>,
                 calls @ [req1])))"
  by (simp add: executeSuggestion_tools_try_def generateContent_def firstRequest_tools_def
      followUpRequest_def requestsSearchDrive_def Let_def case_prod_beta
      split: sum.splits option.splits)

lemma executeSuggestion_tools_unfold:
  "executeSuggestion_tools P calls s h i =
     (let req1 = firstRequest_tools s h i; req2 = followUpRequest s h i
      in case P (calls @ [req1]) of
        Inl e \<Rightarrow> (executionError, calls @ [req1])
      | Inr response \<Rightarrow>
          (if requestsSearchDrive response
           then (case P (calls @ [req1, req2]) of
                   Inl e \<Rightarrow> (executionError, calls @ [req1, req2])
                 | Inr followUpResponse \<Rightarrow>
                     (\<lparr>text_res = or_default (text_rsp followUpResponse)
                                   ''Error processing tool result.'',
                       modelUsed = fst (route_tools (type s)), sourceUrls = None\<rparr>,
                      calls @ [req1, req2]))
           else (\<lparr>text_res = or_default (text_rsp response) ''No response generated.'',
                  modelUsed = fst (route_tools (type s)), sourceUrls = None\<rparr>,
                 calls @ [req1])))"
  by (simp add: executeSuggestion_tools_def executeSuggestion_tools_try_unfold Let_def
      split: sum.splits)





lemma executeSuggestion_requests:
  "snd (executeSuggestion P calls s h i) = calls @ [firstRequest s h i]"
  by (simp add: executeSuggestion_unfold split: sum.splits)

lemma executeSuggestion_tools_requests:
  "snd (executeSuggestion_tools P calls s h i) =
     calls @ firstRequest_tools s h i #
       (case P (calls @ [firstRequest_tools s h i]) of
          Inl e \<Rightarrow> []
        | Inr response \<Rightarrow> if requestsSearchDrive response then [followUpRequest s h i] else [])"
  by (simp add: executeSuggestion_tools_unfold Let_def split: sum.splits)

lemma route_table:
  "(t \<in> {''Create'', ''Challenge'', ''Crystallize''} \<longrightarrow>
      route t = (''gemini-3-pro-preview'',
        \<lparr>systemInstruction = None, responseMimeType = None, responseSchema = None,
         temperature = Some 0.7, tools = None,
         thinkingConfig = Some \<lparr>thinkingBudget = 32768\<rparr>\<rparr>))
   \<and> (t \<in> {''Expand'', ''Connect''} \<longrightarrow>
      route t = (''gemini-2.5-flash'',
        \<lparr>systemInstruction = None, responseMimeType = None, responseSchema = None,
         temperature = Some 0.7, tools = Some [GoogleSearch], thinkingConfig = None\<rparr>))
   \<and> (t \<notin> {''Create'', ''Challenge'', ''Crystallize'', ''Expand'', ''Connect''} \<longrightarrow>
      route t = (''gemini-2.5-flash'',
        \<lparr>systemInstruction = None, responseMimeType = None, responseSchema = None,
         temperature = Some 0.7, tools = None, thinkingConfig = None\<rparr>))"
  by (simp add: route_def Let_def no_config_def)

lemma route_tools_table:
  "(t \<in> {''Create'', ''Challenge'', ''Crystallize''} \<longrightarrow>
      route_tools t = (''gemini-3-pro-preview'',
        \<lparr>systemInstruction = None, responseMimeType = None, responseSchema = None,
         temperature = Some 0.7, tools = None,
         thinkingConfig = Some \<lparr>thinkingBudget = 32768\<rparr>\<rparr>))
   \<and> (t \<in> {''Expand'', ''Connect''} \<longrightarrow>
      route_tools t = (''gemini-2.5-flash'',
        \<lparr>systemInstruction = None, responseMimeType = None, responseSchema = None,
         temperature = Some 0.7, tools = Some [FunctionDeclarations [searchDriveTool]],
         thinkingConfig = None\<rparr>))
   \<and> (t \<notin> {''Create'', ''Challenge'', ''Crystallize'', ''Expand'', ''Connect''} \<longrightarrow>
      route_tools t = (''gemini-2.5-flash'',
        \<lparr>systemInstruction = None, responseMimeType = None, responseSchema = None,
         temperature = Some 0.7, tools = None, thinkingConfig = None\<rparr>))"
  by (simp add: route_tools_def isComplex_def needsSearch_def Let_def no_config_def)

lemma conforms_suggestion:
  "conforms suggestionSchema (suggestion_json s) = (type s \<in> set suggestionTypeEnum)"
  by (cases "id_sug s")
     (simp_all add: suggestionSchema_def suggestion_json_def optional_field_def str_schema_def
        suggestionTypeEnum_def)

lemma conforms_patterns: "list_all (conforms str_schema) (map JString xs)"
  by (induction xs) (simp_all add: str_schema_def)

lemma conformsAnalysisSchema_iff:
  "conformsAnalysisSchema r =
     (historyDepth r \<in> set historyDepthEnum
      \<and> (\<forall>s \<in> set (suggestions r). type s \<in> set suggestionTypeEnum))"
proof -
  have s: "list_all (conforms suggestionSchema) (map suggestion_json xs)
             = (\<forall>s \<in> set xs. type s \<in> set suggestionTypeEnum)" for xs
    by (induction xs) (simp_all add: conforms_suggestion)
  have c: "conforms str_schema (JString x)" for x
    by (simp add: str_schema_def)
  show ?thesis
    unfolding conformsAnalysisSchema_def analysisSchema_def analysis_json_def
    by (cases "dialecticalOpportunity r")
       (simp_all add: optional_field_def conforms_patterns s c historyDepthEnum_def)
qed

subsection \<open>The analyzer's result\<close>

text \<open>
  Claim C1, as the code has it. A successful call of \<open>analyzeContext\<close> returns what
  \<open>JSON.parse\<close> makes of the provider's non-empty response text, unchanged. When that payload
  conforms to \<open>analysisSchema\<close>, the type of each suggestion is one of the six categories.
  The code checks neither the number of suggestions nor that their types differ: these
  are asked of the provider in the system instruction only.
\<close>

theorem analysis_result_is_payload:
  "analyzeContext J P calls h i = (Inr r, calls') \<Longrightarrow>
     (\<exists>response t. P (calls @ [analysisRequest h i]) = Inr response
        \<and> text_rsp response = Some t \<and> t \<noteq> [] \<and> J t = Inr r)
     \<and> (conformsAnalysisSchema r \<longrightarrow>
          (\<forall>s \<in> set (suggestions r).
             type s \<in> {''Clarify'', ''Expand'', ''Create'', ''Connect'', ''Challenge'',
                        ''Crystallize''}))"
  by (auto simp: analyzeContext_unfold conformsAnalysisSchema_iff suggestionTypeEnum_def
      split: sum.splits option.splits if_splits)

lemma sample_analysis:
  "analyzeContext sampleParse (always (Inr (textResponse twoClarifyText))) [] [] ''Explain quicksort''
     = (Inr twoClarify, [analysisRequest [] ''Explain quicksort''])"
proof -
  have "twoClarifyText \<noteq> []"
    by (simp add: twoClarifyText_def)
  then show ?thesis
    by (simp add: analyzeContext_unfold textResponse_def sampleParse_def)
qed

text \<open>The theorem on a provider that answers with the text of \<open>twoClarify\<close>.\<close>

theorem analysis_result_is_payload_witness:
  "analyzeContext sampleParse (always (Inr (textResponse twoClarifyText))) [] [] ''Explain quicksort''
     = (Inr twoClarify, [analysisRequest [] ''Explain quicksort''])
   \<and> conformsAnalysisSchema twoClarify
   \<and> set (map type (suggestions twoClarify))
         \<subseteq> {''Clarify'', ''Expand'', ''Create'', ''Connect'', ''Challenge'', ''Crystallize''}"
proof -
  have c: "conformsAnalysisSchema twoClarify"
    by (simp add: conformsAnalysisSchema_iff twoClarify_def historyDepthEnum_def
        suggestionTypeEnum_def)
  from analysis_result_is_payload [OF sample_analysis] c sample_analysis
  show ?thesis by auto
qed

text \<open>
  Claim C1 as stated fails: the provider answers with a payload that conforms to the
  schema and holds two suggestions, both of type Clarify. The call succeeds and returns
  them.
\<close>

theorem five_distinct_suggestions_counterexample:
  "fst (analyzeContext sampleParse (always (Inr (textResponse twoClarifyText))) [] []
          ''Explain quicksort'') = Inr twoClarify
   \<and> conformsAnalysisSchema twoClarify
   \<and> length (suggestions twoClarify) = 2
   \<and> \<not> distinct (map type (suggestions twoClarify))"
  by (simp add: sample_analysis conformsAnalysisSchema_iff twoClarify_def historyDepthEnum_def
        suggestionTypeEnum_def)

subsection \<open>Routing\<close>

text \<open>
  Claim C2. The first request that \<open>executeSuggestion\<close> issues is built from the suggestion's
  type alone, in both versions of the service, whatever the provider and the requests
  issued before. For Create, Challenge and Crystallize it names the deep-reasoning model
  and its configuration carries the reasoning budget 32768 and no tools. For Expand and
  Connect it names the fast model and its configuration carries the retrieval tool (web
  search in the first version, the \<open>searchDrive\<close> function declaration in the second) and no
  reasoning budget. For Clarify and every other value it names the fast model and its
  configuration carries neither. The three cases cover every string, so every type is
  routed to exactly one configuration.
\<close>

theorem routing_table:
  "(let r = firstRequest s h i; r' = firstRequest_tools s h i
    in snd (executeSuggestion P calls s h i) = calls @ [r]
     \<and> (\<exists>rest. snd (executeSuggestion_tools P calls s h i) = calls @ r' # rest)
     \<and> (type s \<in> {''Create'', ''Challenge'', ''Crystallize''} \<longrightarrow>
          model r = ''gemini-3-pro-preview''
          \<and> config r =
              \<lparr>systemInstruction = None, responseMimeType = None, responseSchema = None,
               temperature = Some 0.7, tools = None,
               thinkingConfig = Some \<lparr>thinkingBudget = 32768\<rparr>\<rparr>
          \<and> model r' = ''gemini-3-pro-preview''
          \<and> config r' =
              \<lparr>systemInstruction = None, responseMimeType = None, responseSchema = None,
               temperature = Some 0.7, tools = None,
               thinkingConfig = Some \<lparr>thinkingBudget = 32768\<rparr>\<rparr>)
     \<and> (type s \<in> {''Expand'', ''Connect''} \<longrightarrow>
          model r = ''gemini-2.5-flash''
          \<and> config r =
              \<lparr>systemInstruction = None, responseMimeType = None, responseSchema = None,
               temperature = Some 0.7, tools = Some [GoogleSearch], thinkingConfig = None\<rparr>
          \<and> model r' = ''gemini-2.5-flash''
          \<and> config r' =
              \<lparr>systemInstruction = None, responseMimeType = None, responseSchema = None,
               temperature = Some 0.7, tools = Some [FunctionDeclarations [searchDriveTool]],
               thinkingConfig = None\<rparr>)
     \<and> (type s \<notin> {''Create'', ''Challenge'', ''Crystallize'', ''Expand'', ''Connect''} \<longrightarrow>
          model r = ''gemini-2.5-flash''
          \<and> config r =
              \<lparr>systemInstruction = None, responseMimeType = None, responseSchema = None,
               temperature = Some 0.7, tools = None, thinkingConfig = None\<rparr>
          \<and> model r' = ''gemini-2.5-flash''
          \<and> config r' =
              \<lparr>systemInstruction = None, responseMimeType = None, responseSchema = None,
               temperature = Some 0.7, tools = None, thinkingConfig = None\<rparr>))"
  using route_table [of "type s"] route_tools_table [of "type s"]
  by (simp add: Let_def executeSuggestion_requests executeSuggestion_tools_requests
      firstRequest_def firstRequest_tools_def)

text \<open>
  The table at a Create suggestion, at the standard reply (Expand), at a Connect suggestion
  and at an unknown type.
\<close>

theorem routing_table_witness:
  "type createSuggestion \<in> {''Create'', ''Challenge'', ''Crystallize''}
   \<and> model (firstRequest createSuggestion [] ''hi'') = ''gemini-3-pro-preview''
   \<and> thinkingConfig (config (firstRequest createSuggestion [] ''hi''))
       = Some \<lparr>thinkingBudget = 32768\<rparr>
   \<and> tools (config (firstRequest createSuggestion [] ''hi'')) = None
   \<and> thinkingConfig (config (firstRequest_tools createSuggestion [] ''hi''))
       = Some \<lparr>thinkingBudget = 32768\<rparr>
   \<and> type standardSuggestion \<in> {''Expand'', ''Connect''}
   \<and> model (firstRequest standardSuggestion [] ''hi'') = ''gemini-2.5-flash''
   \<and> tools (config (firstRequest standardSuggestion [] ''hi'')) = Some [GoogleSearch]
   \<and> tools (config (firstRequest_tools standardSuggestion [] ''hi''))
       = Some [FunctionDeclarations [searchDriveTool]]
   \<and> type (createSuggestion\<lparr>type := ''Connect''\<rparr>) \<in> {''Expand'', ''Connect''}
   \<and> tools (config (firstRequest (createSuggestion\<lparr>type := ''Connect''\<rparr>) [] ''hi''))
       = Some [GoogleSearch]
   \<and> tools (config (firstRequest_tools (createSuggestion\<lparr>type := ''Connect''\<rparr>) [] ''hi''))
       = Some [FunctionDeclarations [searchDriveTool]]
   \<and> type (createSuggestion\<lparr>type := ''Summarize''\<rparr>)
        \<notin> {''Create'', ''Challenge'', ''Crystallize'', ''Expand'', ''Connect''}
   \<and> model (firstRequest (createSuggestion\<lparr>type := ''Summarize''\<rparr>) [] ''hi'')
       = ''gemini-2.5-flash''
   \<and> tools (config (firstRequest (createSuggestion\<lparr>type := ''Summarize''\<rparr>) [] ''hi'')) = None
   \<and> thinkingConfig (config (firstRequest (createSuggestion\<lparr>type := ''Summarize''\<rparr>) []
         ''hi'')) = None"
proof -
  have a: "type createSuggestion \<in> {''Create'', ''Challenge'', ''Crystallize''}"
    by (simp add: createSuggestion_def)
  have b: "type standardSuggestion \<in> {''Expand'', ''Connect''}"
    by (simp add: standardSuggestion_def)
  have c: "type (createSuggestion\<lparr>type := ''Connect''\<rparr>) \<in> {''Expand'', ''Connect''}"
    by simp
  have d: "type (createSuggestion\<lparr>type := ''Summarize''\<rparr>)
        \<notin> {''Create'', ''Challenge'', ''Crystallize'', ''Expand'', ''Connect''}"
    by simp
  note A = routing_table [of createSuggestion "[]" "''hi''" "always (Inl (Error ''offline''))"
      "[]", unfolded Let_def, THEN conjunct2, THEN conjunct2, THEN conjunct1, THEN mp, OF a]
  note B = routing_table [of standardSuggestion "[]" "''hi''" "always (Inl (Error ''offline''))"
      "[]", unfolded Let_def, THEN conjunct2, THEN conjunct2, THEN conjunct2, THEN conjunct1,
      THEN mp, OF b]
  note C = routing_table [of "createSuggestion\<lparr>type := ''Connect''\<rparr>" "[]" "''hi''"
      "always (Inl (Error ''offline''))" "[]", unfolded Let_def, THEN conjunct2, THEN conjunct2,
      THEN conjunct2, THEN conjunct1, THEN mp, OF c]
  note D = routing_table [of "createSuggestion\<lparr>type := ''Summarize''\<rparr>" "[]" "''hi''"
      "always (Inl (Error ''offline''))" "[]", unfolded Let_def, THEN conjunct2, THEN conjunct2,
      THEN conjunct2, THEN conjunct2, THEN mp, OF d]
  show ?thesis
    using a b c d A B C D by simp
qed

lemma or_default_absentOrEmpty: "absentOrEmpty a \<Longrightarrow> or_default a b = b"
  by (simp add: or_default_def absentOrEmpty_def split: option.splits)






subsection \<open>Execution never raises\<close>





subsection \<open>Citations\<close>

text \<open>
  Claim C4. When the provider answers, the \<open>sourceUrls\<close> of the result are the citations as
  the specification words them (\<open>citations_spec\<close>): each grounding chunk that has a uri gives
  the record of its title, or of the placeholder \<open>Source\<close> when the title is missing, and its
  uri, in the order of the chunks; a chunk lacking a uri gives nothing; and an empty list is
  returned as an absent field. A uri or title that is the empty string counts as missing.
\<close>

theorem citation_extraction:
  "P (calls @ [firstRequest s h i]) = Inr response \<Longrightarrow>
     sourceUrls (fst (executeSuggestion P calls s h i)) = citations_spec response"
  by (simp add: executeSuggestion_unfold extractSourceUrls_eq citations_spec_def Let_def)

text \<open>
  The theorem on an answer with four chunks, of which two have a uri and one of these a
  title, and on an answer with no grounding metadata.
\<close>

theorem citation_extraction_witness:
  "sourceUrls (fst (executeSuggestion (always (Inr groundedResponse)) [] standardSuggestion []
       ''Explain quicksort''))
     = Some [\<lparr>title_src = ''A'', uri_src = ''https://a.example''\<rparr>,
             \<lparr>title_src = ''Source'', uri_src = ''https://c.example''\<rparr>]
   \<and> sourceUrls (fst (executeSuggestion (always (Inr (textResponse ''Plain answer''))) []
       standardSuggestion [] ''Explain quicksort'')) = None"
proof -
  have g: "citations_spec groundedResponse
     = Some [\<lparr>title_src = ''A'', uri_src = ''https://a.example''\<rparr>,
             \<lparr>title_src = ''Source'', uri_src = ''https://c.example''\<rparr>]"
    by (simp add: citations_spec_def groundedResponse_def groundingChunks_of_def first_opt_def
        List.map_filter_simps citation_def)
  have t: "citations_spec (textResponse ''Plain answer'') = None"
    by (simp add: citations_spec_def textResponse_def groundingChunks_of_def first_opt_def
        List.map_filter_simps)
  show ?thesis
    using g t
      citation_extraction [of "always (Inr groundedResponse)" "[]" standardSuggestion "[]"
        "''Explain quicksort''" groundedResponse]
      citation_extraction [of "always (Inr (textResponse ''Plain answer''))" "[]" standardSuggestion
        "[]" "''Explain quicksort''" "textResponse ''Plain answer''"]
    by simp
qed

lemma executeSuggestion_tools_hop:
  "P (calls @ [firstRequest_tools s h i]) = Inr response \<Longrightarrow> requestsSearchDrive response \<Longrightarrow>
     executeSuggestion_tools P calls s h i =
       (case P (calls @ [firstRequest_tools s h i, followUpRequest s h i]) of
          Inl e \<Rightarrow> executionError
        | Inr followUp \<Rightarrow>
            \<lparr>text_res = or_default (text_rsp followUp) ''Error processing tool result.'',
             modelUsed = fst (route_tools (type s)), sourceUrls = None\<rparr>,
        calls @ [firstRequest_tools s h i, followUpRequest s h i])"
  by (simp add: executeSuggestion_tools_unfold Let_def split: sum.splits)

lemma followUpRequest_shape:
  "contents (followUpRequest s h i) = contents (firstRequest_tools s h i) @ toolResult_suffix
   \<and> tools (config (followUpRequest s h i)) = None
   \<and> model (followUpRequest s h i) = model (firstRequest_tools s h i)"
  by (simp add: followUpRequest_def firstRequest_tools_def no_config_def)

subsection \<open>The tool round-trip\<close>

text \<open>
  Claim C5, as the code has it (second version of the service). When the provider's first
  response carries a function call named \<open>searchDrive\<close>, \<open>executeSuggestion\<close> issues exactly
  one more request: the first prompt with the synthesized tool result appended, and no
  tools. It returns the text of the follow-up answer when there is one; the fixed
  fallback text when the follow-up answer has no text; the fixed error result when the
  follow-up request fails. Whatever the follow-up answer carries, no third request is
  issued.
\<close>

theorem one_tool_hop:
  assumes "P (calls @ [firstRequest_tools s h i]) = Inr response"
    and "requestsSearchDrive response"
  shows "snd (executeSuggestion_tools P calls s h i)
       = calls @ [firstRequest_tools s h i, followUpRequest s h i]
     \<and> contents (followUpRequest s h i) = contents (firstRequest_tools s h i) @ toolResult_suffix
     \<and> tools (config (followUpRequest s h i)) = None
     \<and> (\<forall>followUp t.
           P (calls @ [firstRequest_tools s h i, followUpRequest s h i]) = Inr followUp
           \<and> text_rsp followUp = Some t \<and> t \<noteq> [] \<longrightarrow>
           text_res (fst (executeSuggestion_tools P calls s h i)) = t)
     \<and> (\<forall>followUp.
           P (calls @ [firstRequest_tools s h i, followUpRequest s h i]) = Inr followUp
           \<and> absentOrEmpty (text_rsp followUp) \<longrightarrow>
           text_res (fst (executeSuggestion_tools P calls s h i))
             = ''Error processing tool result.'')
     \<and> (\<forall>e.
           P (calls @ [firstRequest_tools s h i, followUpRequest s h i]) = Inl e \<longrightarrow>
           fst (executeSuggestion_tools P calls s h i) = executionError)"
proof -
  note hop = executeSuggestion_tools_hop [of P calls s h i response, OF assms]
  have 1: "snd (executeSuggestion_tools P calls s h i)
       = calls @ [firstRequest_tools s h i, followUpRequest s h i]"
    by (simp add: hop)
  have 2: "\<forall>followUp t.
           P (calls @ [firstRequest_tools s h i, followUpRequest s h i]) = Inr followUp
           \<and> text_rsp followUp = Some t \<and> t \<noteq> [] \<longrightarrow>
           text_res (fst (executeSuggestion_tools P calls s h i)) = t"
    by (simp add: hop or_default_present)
  have 3: "\<forall>followUp.
           P (calls @ [firstRequest_tools s h i, followUpRequest s h i]) = Inr followUp
           \<and> absentOrEmpty (text_rsp followUp) \<longrightarrow>
           text_res (fst (executeSuggestion_tools P calls s h i))
             = ''Error processing tool result.''"
    by (simp add: hop or_default_absentOrEmpty)
  have 4: "\<forall>e.
           P (calls @ [firstRequest_tools s h i, followUpRequest s h i]) = Inl e \<longrightarrow>
           fst (executeSuggestion_tools P calls s h i) = executionError"
    by (simp add: hop)
  from 1 2 3 4 followUpRequest_shape [of s h i] show ?thesis
    by blast
qed

lemma functionCall_of_sample:
  "functionCall_of (functionCallResponse n) = Some \<lparr>name_fc = Some n\<rparr>"
  by (simp add: functionCall_of_def functionCallResponse_def first_opt_def)

text \<open>
  The theorem on a provider that answers every request with a \<open>searchDrive\<close> call, and on
  one that answers the follow-up with a text.
\<close>

theorem one_tool_hop_witness:
  "requestsSearchDrive (functionCallResponse ''searchDrive'')
   \<and> snd (executeSuggestion_tools (always (Inr (functionCallResponse ''searchDrive''))) []
          standardSuggestion [] ''hi'')
       = [firstRequest_tools standardSuggestion [] ''hi'',
          followUpRequest standardSuggestion [] ''hi'']
   \<and> tools (config (followUpRequest standardSuggestion [] ''hi'')) = None
   \<and> text_res (fst (executeSuggestion_tools
         (\<lambda>cs. if length cs = 1 then Inr (functionCallResponse ''searchDrive'')
                else Inr (textResponse ''Found two files.'')) []
          standardSuggestion [] ''hi'')) = ''Found two files.''"
proof -
  have y: "requestsSearchDrive (functionCallResponse ''searchDrive'')"
    by (simp add: requestsSearchDrive_def functionCall_of_sample)
  have t: "text_rsp (textResponse ''Found two files.'') = Some ''Found two files.''"
    by (simp add: textResponse_def)
  show ?thesis
    using y t
      one_tool_hop [of "always (Inr (functionCallResponse ''searchDrive''))" "[]" standardSuggestion
        "[]" "''hi''" "functionCallResponse ''searchDrive''"]
      one_tool_hop [of "\<lambda>cs. if length cs = 1 then Inr (functionCallResponse ''searchDrive'')
                else Inr (textResponse ''Found two files.'')" "[]" standardSuggestion
        "[]" "''hi''" "functionCallResponse ''searchDrive''"]
    by simp
qed

text \<open>
  Claim C5 as stated fails: the first response carries a function call with another name,
  and the only request issued is the first one.
\<close>

theorem every_function_call_hop_counterexample:
  "carriesFunctionCall (functionCallResponse ''listFiles'')
   \<and> snd (executeSuggestion_tools (always (Inr (functionCallResponse ''listFiles''))) []
          standardSuggestion [] ''hi'')
       = [firstRequest_tools standardSuggestion [] ''hi'']"
  by (simp add: carriesFunctionCall_def functionCall_of_sample executeSuggestion_tools_requests
      requestsSearchDrive_def)

section \<open>Properties of the component\<close>

lemma addLog_proj [simp]:
  "isAnalyzing (engineState (addLog env m ty st)) = isAnalyzing (engineState st)"
  "isExecuting (engineState (addLog env m ty st)) = isExecuting (engineState st)"
  "currentSuggestions (engineState (addLog env m ty st)) = currentSuggestions (engineState st)"
  "logs (engineState (addLog env m ty st)) = logs (engineState st) @
     [\<lparr>id_log = randomUUID env (draws st), timestamp_log = now env (draws st),
       message = m, type_log = ty\<rparr>]"
  "messages (addLog env m ty st) = messages st"
  "input (addLog env m ty st) = input st"
  "pending (addLog env m ty st) = pending st"
  "requests (addLog env m ty st) = requests st"
  "engineActive (addLog env m ty st) = engineActive st"
  "draws (addLog env m ty st) = Suc (draws st)"
  by (simp_all add: addLog_def setEngineState_def)

lemma setEngineState_proj [simp]:
  "engineState (setEngineState f st) = f (engineState st)"
  "messages (setEngineState f st) = messages st"
  "input (setEngineState f st) = input st"
  "pending (setEngineState f st) = pending st"
  "requests (setEngineState f st) = requests st"
  "engineActive (setEngineState f st) = engineActive st"
  "draws (setEngineState f st) = draws st"
  by (simp_all add: setEngineState_def)

lemma setMessages_append_proj [simp]:
  "engineState (setMessages_append m st) = engineState st"
  "messages (setMessages_append m st) = messages st @ [m]"
  "input (setMessages_append m st) = input st"
  "pending (setMessages_append m st) = pending st"
  "requests (setMessages_append m st) = requests st"
  "engineActive (setMessages_append m st) = engineActive st"
  "draws (setMessages_append m st) = Suc (draws st)"
  by (simp_all add: setMessages_append_def)

lemma foldl_addLog_proj [simp]:
  "isAnalyzing (engineState (foldl (\<lambda>s p. addLog env (f p) ty s) st ps))
     = isAnalyzing (engineState st)"
  "isExecuting (engineState (foldl (\<lambda>s p. addLog env (f p) ty s) st ps))
     = isExecuting (engineState st)"
  "currentSuggestions (engineState (foldl (\<lambda>s p. addLog env (f p) ty s) st ps))
     = currentSuggestions (engineState st)"
  "messages (foldl (\<lambda>s p. addLog env (f p) ty s) st ps) = messages st"
  "pending (foldl (\<lambda>s p. addLog env (f p) ty s) st ps) = pending st"
  "requests (foldl (\<lambda>s p. addLog env (f p) ty s) st ps) = requests st"
  "engineActive (foldl (\<lambda>s p. addLog env (f p) ty s) st ps) = engineActive st"
  by (induction ps arbitrary: st; simp)+

lemma processWithEngine_resume_proj:
  "isAnalyzing (engineState (processWithEngine_resume env svc P h i c st)) = False"
  "isExecuting (engineState (processWithEngine_resume env svc P h i c st))
     = isExecuting (engineState st)"
  "pending (processWithEngine_resume env svc P h i c st) = pending st"
  "messages (processWithEngine_resume env svc P h i c st) = messages st"
  "engineActive (processWithEngine_resume env svc P h i c st) = engineActive st"
  by (simp_all add: processWithEngine_resume_def Let_def split: prod.splits sum.splits)

lemma handleSendMessage_resume_proj:
  "isAnalyzing (engineState (handleSendMessage_resume env svc P h i c st))
     = isAnalyzing (engineState st)"
  "isExecuting (engineState (handleSendMessage_resume env svc P h i c st)) = False"
  "currentSuggestions (engineState (handleSendMessage_resume env svc P h i c st))
     = currentSuggestions (engineState st)"
  "logs (engineState (handleSendMessage_resume env svc P h i c st)) = logs (engineState st)"
  "pending (handleSendMessage_resume env svc P h i c st) = pending st"
  "messages (handleSendMessage_resume env svc P h i c st) \<noteq> []"
  "engineActive (handleSendMessage_resume env svc P h i c st) = engineActive st"
  by (simp_all add: handleSendMessage_resume_def Let_def split: prod.splits)

lemma handleSuggestionClick_resume_proj:
  "isAnalyzing (engineState (handleSuggestionClick_resume env svc P s h i c st))
     = isAnalyzing (engineState st)"
  "isExecuting (engineState (handleSuggestionClick_resume env svc P s h i c st)) = False"
  "currentSuggestions (engineState (handleSuggestionClick_resume env svc P s h i c st))
     = currentSuggestions (engineState st)"
  "pending (handleSuggestionClick_resume env svc P s h i c st) = pending st"
  "messages (handleSuggestionClick_resume env svc P s h i c st) \<noteq> []"
  "engineActive (handleSuggestionClick_resume env svc P s h i c st) = engineActive st"
  by (simp_all add: handleSuggestionClick_resume_def Let_def split: prod.splits)

lemma handleSendMessage_begin_on:
  assumes "trim (input st) \<noteq> []" "\<not> isExecuting (engineState st)" "engineActive st"
  shows "snd (handleSendMessage_begin env svc st)
           = Some (AwaitAnalysis (messages st) (input st) (requests st))"
    and "isAnalyzing (engineState (fst (handleSendMessage_begin env svc st)))"
    and "isExecuting (engineState (fst (handleSendMessage_begin env svc st))) = False"
    and "currentSuggestions (engineState (fst (handleSendMessage_begin env svc st))) = []"
    and "messages (fst (handleSendMessage_begin env svc st))
           = messages st @ [newMessage env st RoleUser (input st) None]"
    and "pending (fst (handleSendMessage_begin env svc st)) = pending st"
    and "engineActive (fst (handleSendMessage_begin env svc st))"
    and "requests (fst (handleSendMessage_begin env svc st))
           = requests st @ [analyzeContext_request svc (messages st) (input st)]"
  using assms
  by (simp_all add: handleSendMessage_begin_def processWithEngine_begin_def Let_def
      newMessage_def)

lemma handleSendMessage_begin_off:
  assumes "trim (input st) \<noteq> []" "\<not> isExecuting (engineState st)" "\<not> engineActive st"
  shows "handleSendMessage_begin env svc st =
           ((setEngineState (\<lambda>prev. prev\<lparr>isExecuting := True\<rparr>)
               ((setMessages_append (newMessage env st RoleUser (input st) None) st)
                  \<lparr>input := []\<rparr>))
              \<lparr>requests := requests st
                 @ [executeSuggestion_request svc standardSuggestion (messages st) (input st)]\<rparr>,
            Some (AwaitReply (messages st) (input st) (requests st)))"
  using assms by (simp add: handleSendMessage_begin_def Let_def newMessage_def)

lemma handleSuggestionClick_updates_proj [simp]:
  "currentSuggestions (engineState (handleSuggestionClick_updates env s st)) = []"
  "isExecuting (engineState (handleSuggestionClick_updates env s st))"
  "isAnalyzing (engineState (handleSuggestionClick_updates env s st))
     = isAnalyzing (engineState st)"
  "requests (handleSuggestionClick_updates env s st) = requests st"
  "messages (handleSuggestionClick_updates env s st) = messages st"
  "pending (handleSuggestionClick_updates env s st) = pending st"
  "engineActive (handleSuggestionClick_updates env s st) = engineActive st"
  by (simp_all add: handleSuggestionClick_updates_def Let_def)




lemma handleSuggestionClick_begin_failed:
  "messages st = [] \<Longrightarrow>
     \<not> isExecuting (engineState (fst (handleSuggestionClick_begin env svc s st)))
     \<and> requests (fst (handleSuggestionClick_begin env svc s st)) = requests st
     \<and> snd (handleSuggestionClick_begin env svc s st) = None"
  by (simp add: handleSuggestionClick_begin_def handleSuggestionClick_call_def Let_def)

text \<open>
  The request a method issues in its synchronous part is the first of the requests of the
  whole call, in both versions of the service.
\<close>

lemma analyzeContext_requests:
  "snd (analyzeContext J P calls h i) = calls @ [analysisRequest h i]"
  "snd (analyzeContext_tools J P calls h i) = calls @ [analysisRequest_tools h i]"
  unfolding analyzeContext_def analyzeContext_tools_def analysisRequest_def
    analysisRequest_tools_def generateContent_def Let_def
  by (simp_all split: sum.splits option.splits)

lemma geminiService_first_request:
  "snd (analyzeContext_svc (geminiService J) P calls h i)
     = calls @ [analyzeContext_request (geminiService J) h i]"
  "snd (executeSuggestion_svc (geminiService J) P calls s h i)
     = calls @ [executeSuggestion_request (geminiService J) s h i]"
  "snd (analyzeContext_svc (geminiService_tools J) P calls h i)
     = calls @ [analyzeContext_request (geminiService_tools J) h i]"
  "\<exists>rest. snd (executeSuggestion_svc (geminiService_tools J) P calls s h i)
     = calls @ executeSuggestion_request (geminiService_tools J) s h i # rest"
  by (simp_all add: geminiService_def geminiService_tools_def analyzeContext_requests
      executeSuggestion_requests executeSuggestion_tools_requests)

subsection \<open>Invariants of the reachable states\<close>

lemma consistent_single:
  "consistent st \<Longrightarrow> t \<in> set (pending st) \<Longrightarrow> pending st = [t]"
  by (auto simp: consistent_def Let_def split: list.splits Task.splits)

lemma consistent_idle:
  "consistent st \<Longrightarrow> \<not> isAnalyzing (engineState st) \<Longrightarrow> \<not> isExecuting (engineState st)
     \<Longrightarrow> pending st = []"
  by (auto simp: consistent_def Let_def split: list.splits Task.splits)

lemma consistent_card:
  "consistent st \<Longrightarrow> cardEnabled s st \<Longrightarrow> pending st = [] \<and> \<not> isAnalyzing (engineState st)"
  by (auto simp: consistent_def cardEnabled_def Let_def split: list.splits Task.splits)

lemma step_consistent:
  assumes "step env svc P st st'" and "consistent st"
  shows "consistent st'"
  using assms
proof (induction rule: step.induct)
  case (change st v)
  then show ?case by (simp add: consistent_def)
next
  case (toggle st)
  then show ?case by (simp add: consistent_def)
next
  case (send st st' t)
  then have "pending st = []"
    by (simp add: consistent_idle inputDisabled_def)
  with send show ?case
    by (auto simp: handleSendMessage_begin_def processWithEngine_begin_def Let_def
        consistent_def suspend_def inputDisabled_def split: if_splits)
next
  case (select s st st' t)
  then have "pending st = []" "\<not> isAnalyzing (engineState st)"
    using consistent_card by blast+
  with select show ?case
    by (auto simp: handleSuggestionClick_begin_def handleSuggestionClick_call_def Let_def
        consistent_def suspend_def split: if_splits)
next
  case (settle t st)
  then have p: "pending st = [t]"
    by (simp add: consistent_single)
  show ?case
  proof (cases t)
    case (AwaitAnalysis h i c)
    with settle p show ?thesis
      by (simp add: resume_def consistent_def Let_def processWithEngine_resume_proj)
  next
    case (AwaitReply h i c)
    with settle p show ?thesis
      by (simp add: resume_def consistent_def Let_def handleSendMessage_resume_proj)
  next
    case (AwaitExecution s h i c)
    with settle p show ?thesis
      by (simp add: resume_def consistent_def Let_def handleSuggestionClick_resume_proj)
  qed
qed

lemma reachable_consistent: "reachable env svc P st \<Longrightarrow> consistent st"
proof (induction rule: reachable.induct)
  case start
  show ?case by (simp add: consistent_def initialState_def)
next
  case (after st st')
  then show ?case using step_consistent by blast
qed

text \<open>
  While a handler is suspended no other request is issued: the requests of the state are
  those the suspended call started from, and its first request.
\<close>

lemma step_inFlight:
  assumes "step env svc P st st'" and "consistent st"
    and "\<And>t. t \<in> set (pending st) \<Longrightarrow> requests st = inFlight svc t"
    and "t' \<in> set (pending st')"
  shows "requests st' = inFlight svc t'"
  using assms
proof (induction rule: step.induct)
  case (change st v)
  then show ?case by simp
next
  case (toggle st)
  then show ?case by simp
next
  case (send st st' t)
  then have "pending st = []"
    by (simp add: consistent_idle inputDisabled_def)
  with send show ?case
    by (auto simp: handleSendMessage_begin_def processWithEngine_begin_def Let_def
        suspend_def inputDisabled_def inFlight_def newMessage_def split: if_splits)
next
  case (select s st st' t)
  then have "pending st = []"
    using consistent_card by blast
  with select show ?case
    by (auto simp: handleSuggestionClick_begin_def handleSuggestionClick_call_def Let_def
        suspend_def inFlight_def split: if_splits)
next
  case (settle t st)
  then have p: "pending st = [t]"
    by (simp add: consistent_single)
  from settle(4) show ?case
    by (cases t)
      (simp_all add: p resume_def processWithEngine_resume_proj handleSendMessage_resume_proj
        handleSuggestionClick_resume_proj)
qed

lemma reachable_inFlight:
  "reachable env svc P st \<Longrightarrow> t \<in> set (pending st) \<Longrightarrow> requests st = inFlight svc t"
proof (induction arbitrary: t rule: reachable.induct)
  case start
  then show ?case by (simp add: initialState_def)
next
  case (after st st')
  from after(2) reachable_consistent [OF after(1)] after(3) after(4) show ?case
    by (rule step_inFlight)
qed



subsection \<open>The phases exclude each other\<close>

text \<open>
  Claim C8. In every state the component can reach by its events (a change of the input,
  the toggle, a submission, the selection of a displayed suggestion, and the completion
  or failure of an analysis or an execution), \<open>isAnalyzing\<close> and \<open>isExecuting\<close> are never both
  true. Both are false exactly when no handler is suspended, that is, when the engine is
  idle, and exactly then the status footer reads IDLE.
\<close>

theorem phases_exclusive:
  "reachable env svc P st \<Longrightarrow>
     \<not> (isAnalyzing (engineState st) \<and> isExecuting (engineState st))
     \<and> ((\<not> isAnalyzing (engineState st) \<and> \<not> isExecuting (engineState st))
          = (pending st = []))
     \<and> ((\<not> isAnalyzing (engineState st) \<and> \<not> isExecuting (engineState st))
          = (status (engineState st) = ''IDLE''))"
proof -
  assume "reachable env svc P st"
  then have "consistent st"
    by (rule reachable_consistent)
  then show ?thesis
    by (auto simp: consistent_def Let_def status_def split: list.splits Task.splits)
qed

lemma dropCodes_keep:
  "find (\<lambda>w. w \<noteq> [] \<and> take (length w) s = w) codes = None \<Longrightarrow> dropCodes codes s = s"
  by (simp add: dropCodes.simps [of codes s])

lemma trim_keep:
  assumes "find (\<lambda>w. w \<noteq> [] \<and> take (length w) s = w) whiteSpaceCodes = None"
    and "find (\<lambda>w. w \<noteq> [] \<and> take (length w) (rev s) = w) (map rev whiteSpaceCodes) = None"
  shows "trim s = s"
  using assms by (simp add: trim_def dropCodes_keep)

lemma trim_sample: "trim ''Explain quicksort'' \<noteq> []"
  by (subst trim_keep) (simp_all add: whiteSpaceCodes_def)

lemma typedState_proj:
  "input typedState = ''Explain quicksort''" "messages typedState = []"
  "engineActive typedState" "\<not> isExecuting (engineState typedState)"
  "\<not> isAnalyzing (engineState typedState)" "pending typedState = []"
  "requests typedState = []"
  by (simp_all add: typedState_def initialState_def)

lemma reachable_typedState: "reachable env svc P typedState"
proof -
  have "step env svc P initialState typedState"
    unfolding typedState_def
    by (rule step.change) (simp add: inputDisabled_def initialState_def)
  with reachable.start show ?thesis
    by (rule reachable.after)
qed

lemma analyzingState_proj:
  "pending analyzingState = [AwaitAnalysis [] ''Explain quicksort'' []]"
  "isAnalyzing (engineState analyzingState)"
  "\<not> isExecuting (engineState analyzingState)"
  "engineActive analyzingState"
  "requests analyzingState = [analysisRequest [] ''Explain quicksort'']"
  "messages analyzingState = [newMessage sampleEnv typedState RoleUser ''Explain quicksort'' None]"
  using handleSendMessage_begin_on [of typedState sampleEnv sampleService] trim_sample
  by (simp_all add: analyzingState_def suspend_def typedState_proj sampleService_def
      geminiService_def)

lemma reachable_analyzingState: "reachable sampleEnv sampleService P analyzingState"
proof -
  have "step sampleEnv sampleService P typedState analyzingState"
    unfolding analyzingState_def
    by (rule step.send) (simp_all add: inputDisabled_def typedState_proj)
  with reachable_typedState show ?thesis
    by (rule reachable.after)
qed

text \<open>The theorem on the state reached by typing a first input and sending it.\<close>

theorem phases_exclusive_witness:
  "reachable sampleEnv sampleService sampleProvider analyzingState
   \<and> isAnalyzing (engineState analyzingState)
   \<and> \<not> isExecuting (engineState analyzingState)
   \<and> pending analyzingState \<noteq> []
   \<and> status (engineState analyzingState) \<noteq> ''IDLE''"
  using phases_exclusive [of sampleEnv sampleService sampleProvider analyzingState]
    reachable_analyzingState [of sampleProvider] analyzingState_proj(2)
  by blast

lemma processWithEngine_resume_success:
  assumes "analyzeContext_svc svc P c h i = (Inr a, calls')"
  shows "currentSuggestions (engineState (processWithEngine_resume env svc P h i c st))
           = suggestions a"
    and "requests (processWithEngine_resume env svc P h i c st) = calls'"
    and "map type_log (logs (engineState (processWithEngine_resume env svc P h i c st)))
           = map type_log (logs (engineState st))
             @ replicate (length (patternsDetected a)) LogPattern
             @ [LogInfo, LogInfo, LogSuccess]"
proof -
  have l: "map type_log (logs (engineState (foldl (\<lambda>s p. addLog env (f p) LogPattern s) st0 ps)))
             = map type_log (logs (engineState st0)) @ replicate (length ps) LogPattern"
    for f st0 ps
    by (induction ps arbitrary: st0) (simp_all add: replicate_append_same)
  show "currentSuggestions (engineState (processWithEngine_resume env svc P h i c st))
           = suggestions a"
    using assms by (simp add: processWithEngine_resume_def Let_def)
  show "requests (processWithEngine_resume env svc P h i c st) = calls'"
    using assms by (simp add: processWithEngine_resume_def Let_def)
  show "map type_log (logs (engineState (processWithEngine_resume env svc P h i c st)))
           = map type_log (logs (engineState st))
             @ replicate (length (patternsDetected a)) LogPattern
             @ [LogInfo, LogInfo, LogSuccess]"
    using assms by (simp add: processWithEngine_resume_def Let_def l)
qed

lemma processWithEngine_resume_failure:
  assumes "analyzeContext_svc svc P c h i = (Inl e, calls')"
  shows "processWithEngine_resume env svc P h i c st
           = setEngineState (\<lambda>prev. prev\<lparr>isAnalyzing := False\<rparr>)
               (addLog env (''Analysis failed: '' @ message_err e) LogWarning
                  (st\<lparr>requests := calls'\<rparr>))"
  using assms by (simp add: processWithEngine_resume_def Let_def)

subsection \<open>Selecting a suggestion\<close>











lemma analyzeContext_failure:
  assumes "P (calls @ [analysisRequest h i]) = Inl e
      \<or> (\<exists>response. P (calls @ [analysisRequest h i]) = Inr response
            \<and> absentOrEmpty (text_rsp response) \<and> e = Error ''No analysis generated'')
      \<or> (\<exists>response t. P (calls @ [analysisRequest h i]) = Inr response
            \<and> text_rsp response = Some t \<and> t \<noteq> [] \<and> J t = Inl e)"
  shows "analyzeContext J P calls h i = (Inl e, calls @ [analysisRequest h i])"
  using assms
  by (auto simp: analyzeContext_unfold absentOrEmpty_def split: option.splits)

lemma processWithEngine_failure:
  assumes "analyzeContext_svc svc P (requests st) h (content m) = (Inl e, calls')"
  shows "processWithEngine env svc P h m st
           = setEngineState (\<lambda>prev. prev\<lparr>isAnalyzing := False\<rparr>)
               (addLog env (''Analysis failed: '' @ message_err e) LogWarning
                  ((addLog env ''Spore detected. Initiating substrate analysis...'' LogInfo
                      (setEngineState
                         (\<lambda>prev. prev\<lparr>isAnalyzing := True, currentSuggestions := []\<rparr>) st))
                   \<lparr>requests := calls'\<rparr>))"
  using assms
  by (simp add: processWithEngine_def processWithEngine_begin_def Let_def resume_def
      processWithEngine_resume_failure)

subsection \<open>Failure of the analysis\<close>

text \<open>
  Claim C7, as the code has it. When the provider rejects the request, or its response has
  no text or an empty one, or \<open>JSON.parse\<close> rejects the text, \<open>analyzeContext\<close> raises, and
  \<open>processWithEngine\<close> recovers locally: \<open>isAnalyzing\<close> is false again and \<open>isExecuting\<close> is
  untouched (so an engine that was not executing is idle), the log grows by the entry that
  announces the analysis and by exactly one warning, which carries the error's message,
  the suggestion set is empty, the conversation is as it was, and exactly one request has
  been issued (there is no retry). Nothing is said of a payload that parses and does not
  conform to the schema: the code does not detect it.
\<close>

theorem analysis_failure_recovery:
  assumes "P (requests st @ [analysisRequest h (content m)]) = Inl e
      \<or> (\<exists>response. P (requests st @ [analysisRequest h (content m)]) = Inr response
            \<and> absentOrEmpty (text_rsp response) \<and> e = Error ''No analysis generated'')
      \<or> (\<exists>response t. P (requests st @ [analysisRequest h (content m)]) = Inr response
            \<and> text_rsp response = Some t \<and> t \<noteq> [] \<and> J t = Inl e)"
  shows "analyzeContext J P (requests st) h (content m)
           = (Inl e, requests st @ [analysisRequest h (content m)])
     \<and> (let st' = processWithEngine env (geminiService J) P h m st
        in \<not> isAnalyzing (engineState st')
         \<and> isExecuting (engineState st') = isExecuting (engineState st)
         \<and> (\<not> isExecuting (engineState st) \<longrightarrow> status (engineState st') = ''IDLE'')
         \<and> (\<exists>l1 l2. logs (engineState st') = logs (engineState st) @ [l1, l2]
               \<and> type_log l1 = LogInfo \<and> type_log l2 = LogWarning
               \<and> message l2 = ''Analysis failed: '' @ message_err e)
         \<and> currentSuggestions (engineState st') = []
         \<and> messages st' = messages st
         \<and> pending st' = pending st
         \<and> requests st' = requests st @ [analysisRequest h (content m)])"
proof -
  note f = analyzeContext_failure [where P = P and calls = "requests st" and h = h
      and i = "content m" and e = e and J = J, OF assms]
  then have "analyzeContext_svc (geminiService J) P (requests st) h (content m)
               = (Inl e, requests st @ [analysisRequest h (content m)])"
    by (simp add: geminiService_def)
  note p = processWithEngine_failure [where env = env, OF this]
  show ?thesis
    unfolding Let_def p
    by (simp add: f status_def)
qed

lemma failure_instance:
  assumes "P ([] @ [analysisRequest [] (content sampleUserMessage)]) = Inl e
      \<or> (\<exists>response. P ([] @ [analysisRequest [] (content sampleUserMessage)]) = Inr response
            \<and> absentOrEmpty (text_rsp response) \<and> e = Error ''No analysis generated'')
      \<or> (\<exists>response t. P ([] @ [analysisRequest [] (content sampleUserMessage)]) = Inr response
            \<and> text_rsp response = Some t \<and> t \<noteq> [] \<and> sampleParse t = Inl e)"
  shows "P (requests initialState @ [analysisRequest [] (content sampleUserMessage)]) = Inl e
      \<or> (\<exists>response. P (requests initialState @ [analysisRequest [] (content sampleUserMessage)])
              = Inr response
            \<and> absentOrEmpty (text_rsp response) \<and> e = Error ''No analysis generated'')
      \<or> (\<exists>response t. P (requests initialState @ [analysisRequest [] (content sampleUserMessage)])
              = Inr response
            \<and> text_rsp response = Some t \<and> t \<noteq> [] \<and> sampleParse t = Inl e)"
  using assms by (simp add: initialState_def)

text \<open>
  The theorem on a provider that rejects the request, on one that answers with an empty
  text, and on one whose text is not JSON.
\<close>

theorem analysis_failure_recovery_witness:
  "fst (analyzeContext sampleParse (always (Inl (Error ''offline''))) [] []
        (content sampleUserMessage)) = Inl (Error ''offline'')
   \<and> map type_log (logs (engineState (processWithEngine sampleEnv (geminiService sampleParse)
          (always (Inl (Error ''offline''))) [] sampleUserMessage initialState)))
      = [LogInfo, LogWarning]
   \<and> message (last (logs (engineState (processWithEngine sampleEnv (geminiService sampleParse)
          (always (Inl (Error ''offline''))) [] sampleUserMessage initialState))))
      = ''Analysis failed: offline''
   \<and> \<not> isAnalyzing (engineState (processWithEngine sampleEnv (geminiService sampleParse)
          (always (Inl (Error ''offline''))) [] sampleUserMessage initialState))
   \<and> status (engineState (processWithEngine sampleEnv (geminiService sampleParse)
          (always (Inl (Error ''offline''))) [] sampleUserMessage initialState)) = ''IDLE''
   \<and> currentSuggestions (engineState (processWithEngine sampleEnv (geminiService sampleParse)
          (always (Inl (Error ''offline''))) [] sampleUserMessage initialState)) = []
   \<and> requests (processWithEngine sampleEnv (geminiService sampleParse)
          (always (Inl (Error ''offline''))) [] sampleUserMessage initialState)
      = [analysisRequest [] (content sampleUserMessage)]
   \<and> fst (analyzeContext sampleParse (always (Inr (textResponse []))) [] []
        (content sampleUserMessage)) = Inl (Error ''No analysis generated'')
   \<and> message (last (logs (engineState (processWithEngine sampleEnv (geminiService sampleParse)
          (always (Inr (textResponse []))) [] sampleUserMessage initialState))))
      = ''Analysis failed: No analysis generated''
   \<and> fst (analyzeContext sampleParse (always (Inr (textResponse ''<html>''))) [] []
        (content sampleUserMessage)) = Inl (Error ''Unexpected token'')
   \<and> message (last (logs (engineState (processWithEngine sampleEnv (geminiService sampleParse)
          (always (Inr (textResponse ''<html>''))) [] sampleUserMessage initialState))))
      = ''Analysis failed: Unexpected token''"
proof -
  have i: "requests initialState = []" "logs (engineState initialState) = []"
    "\<not> isExecuting (engineState initialState)"
    by (simp_all add: initialState_def)
  have a: "(always (Inl (Error ''offline''))) ([] @ [analysisRequest [] (content sampleUserMessage)])
        = (Inl (Error ''offline'') :: error + GenerateContentResponse)"
    by simp
  have b: "\<exists>response. (always (Inr (textResponse [])))
              ([] @ [analysisRequest [] (content sampleUserMessage)]) = Inr response
            \<and> absentOrEmpty (text_rsp response)
            \<and> Error ''No analysis generated'' = Error ''No analysis generated''"
    by (simp add: textResponse_def absentOrEmpty_def)
  have c: "\<exists>response t. (always (Inr (textResponse ''<html>'')))
              ([] @ [analysisRequest [] (content sampleUserMessage)]) = Inr response
            \<and> text_rsp response = Some t \<and> t \<noteq> []
            \<and> sampleParse t = Inl (Error ''Unexpected token'')"
    by (simp add: textResponse_def sampleParse_def twoClarifyText_def offSchemaText_def)
  note A = analysis_failure_recovery [where env = sampleEnv and J = sampleParse
      and st = initialState and h = "[]" and m = sampleUserMessage
      and P = "always (Inl (Error ''offline''))" and e = "Error ''offline''",
      OF failure_instance [where P = "always (Inl (Error ''offline''))"
        and e = "Error ''offline''", OF disjI1 [OF a]]]
  note B = analysis_failure_recovery [where env = sampleEnv and J = sampleParse
      and st = initialState and h = "[]" and m = sampleUserMessage
      and P = "always (Inr (textResponse []))" and e = "Error ''No analysis generated''",
      OF failure_instance [where P = "always (Inr (textResponse []))"
        and e = "Error ''No analysis generated''", OF disjI2 [OF disjI1 [OF b]]]]
  note C = analysis_failure_recovery [where env = sampleEnv and J = sampleParse
      and st = initialState and h = "[]" and m = sampleUserMessage
      and P = "always (Inr (textResponse ''<html>''))" and e = "Error ''Unexpected token''",
      OF failure_instance [where P = "always (Inr (textResponse ''<html>''))"
        and e = "Error ''Unexpected token''", OF disjI2 [OF disjI2 [OF c]]]]
  have wA: "fst (analyzeContext sampleParse (always (Inl (Error ''offline''))) [] []
        (content sampleUserMessage)) = Inl (Error ''offline'')
   \<and> map type_log (logs (engineState (processWithEngine sampleEnv (geminiService sampleParse)
          (always (Inl (Error ''offline''))) [] sampleUserMessage initialState)))
      = [LogInfo, LogWarning]
   \<and> message (last (logs (engineState (processWithEngine sampleEnv (geminiService sampleParse)
          (always (Inl (Error ''offline''))) [] sampleUserMessage initialState))))
      = ''Analysis failed: offline''
   \<and> \<not> isAnalyzing (engineState (processWithEngine sampleEnv (geminiService sampleParse)
          (always (Inl (Error ''offline''))) [] sampleUserMessage initialState))
   \<and> status (engineState (processWithEngine sampleEnv (geminiService sampleParse)
          (always (Inl (Error ''offline''))) [] sampleUserMessage initialState)) = ''IDLE''
   \<and> currentSuggestions (engineState (processWithEngine sampleEnv (geminiService sampleParse)
          (always (Inl (Error ''offline''))) [] sampleUserMessage initialState)) = []
   \<and> requests (processWithEngine sampleEnv (geminiService sampleParse)
          (always (Inl (Error ''offline''))) [] sampleUserMessage initialState)
      = [analysisRequest [] (content sampleUserMessage)]"
    using A i unfolding Let_def by auto
  have wB: "fst (analyzeContext sampleParse (always (Inr (textResponse []))) [] []
        (content sampleUserMessage)) = Inl (Error ''No analysis generated'')
   \<and> message (last (logs (engineState (processWithEngine sampleEnv (geminiService sampleParse)
          (always (Inr (textResponse []))) [] sampleUserMessage initialState))))
      = ''Analysis failed: No analysis generated''"
    using B i unfolding Let_def by auto
  have wC: "fst (analyzeContext sampleParse (always (Inr (textResponse ''<html>''))) [] []
        (content sampleUserMessage)) = Inl (Error ''Unexpected token'')
   \<and> message (last (logs (engineState (processWithEngine sampleEnv (geminiService sampleParse)
          (always (Inr (textResponse ''<html>''))) [] sampleUserMessage initialState))))
      = ''Analysis failed: Unexpected token''"
    using C i unfolding Let_def by auto
  from wA wB wC show ?thesis
    by (simp only: simp_thms)
qed

lemma offSchemaText_facts: "offSchemaText \<noteq> []" "offSchemaText \<noteq> twoClarifyText"
  by (simp_all add: offSchemaText_def twoClarifyText_def)

lemma offSchema_analysis:
  "analyzeContext sampleParse (always (Inr (textResponse offSchemaText))) [] []
      ''Explain quicksort''
     = (Inr offSchema, [analysisRequest [] ''Explain quicksort''])"
  using offSchemaText_facts
  by (simp add: analyzeContext_unfold textResponse_def sampleParse_def)

text \<open>
  Claim C7 as stated fails for a payload that does not conform to the schema: with a
  suggestion of type Summarize, \<open>analyzeContext\<close> returns the payload, its suggestion is
  displayed and the log has no warning.
\<close>

theorem nonconforming_payload_counterexample:
  "\<not> conformsAnalysisSchema offSchema
   \<and> analyzeContext sampleParse (always (Inr (textResponse offSchemaText))) [] []
        (content sampleUserMessage)
      = (Inr offSchema, [analysisRequest [] (content sampleUserMessage)])
   \<and> currentSuggestions (engineState (processWithEngine sampleEnv (geminiService sampleParse)
          (always (Inr (textResponse offSchemaText))) [] sampleUserMessage initialState))
      = suggestions offSchema
   \<and> suggestions offSchema \<noteq> []
   \<and> map type_log (logs (engineState (processWithEngine sampleEnv (geminiService sampleParse)
          (always (Inr (textResponse offSchemaText))) [] sampleUserMessage initialState)))
      = [LogInfo, LogInfo, LogInfo, LogSuccess]"
proof -
  have c: "content sampleUserMessage = ''Explain quicksort''"
    by (simp add: sampleUserMessage_def)
  have n: "\<not> conformsAnalysisSchema offSchema"
    by (simp add: conformsAnalysisSchema_iff offSchema_def suggestionTypeEnum_def)
  have s: "suggestions offSchema \<noteq> []" "patternsDetected offSchema = []"
    by (simp_all add: offSchema_def)
  have a: "analyzeContext_svc (geminiService sampleParse)
             (always (Inr (textResponse offSchemaText)))
             [] [] ''Explain quicksort''
           = (Inr offSchema, [analysisRequest [] ''Explain quicksort''])"
    using offSchema_analysis
    by (simp add: geminiService_def)
  note r = processWithEngine_resume_success [where env = sampleEnv, OF a]
  have p: "processWithEngine sampleEnv (geminiService sampleParse)
             (always (Inr (textResponse offSchemaText))) [] sampleUserMessage initialState
           = processWithEngine_resume sampleEnv (geminiService sampleParse)
               (always (Inr (textResponse offSchemaText))) [] ''Explain quicksort'' []
               (fst (processWithEngine_begin sampleEnv (geminiService sampleParse) []
                       sampleUserMessage initialState))"
    by (simp add: processWithEngine_def processWithEngine_begin_def Let_def resume_def c
        initialState_def)
  have l: "map type_log (logs (engineState
             (fst (processWithEngine_begin sampleEnv (geminiService sampleParse) []
                     sampleUserMessage initialState))))
           = [LogInfo]"
    by (simp add: processWithEngine_begin_def Let_def initialState_def)
  show ?thesis
    using n s offSchema_analysis r
    by (simp add: p c l)
qed

lemma handleSendMessage_off:
  assumes "\<not> engineActive st" and "trim (input st) \<noteq> []" and "\<not> isExecuting (engineState st)"
  shows "handleSendMessage env svc P st
           = handleSendMessage_resume env svc P (messages st) (input st) (requests st)
               ((setEngineState (\<lambda>prev. prev\<lparr>isExecuting := True\<rparr>)
                   ((setMessages_append (newMessage env st RoleUser (input st) None) st)
                      \<lparr>input := []\<rparr>))
                  \<lparr>requests := requests st
                     @ [executeSuggestion_request svc standardSuggestion (messages st)
                          (input st)]\<rparr>)"
  using assms
  by (simp add: handleSendMessage_def handleSendMessage_begin_off resume_def)

lemma handleSendMessage_resume_svc:
  "handleSendMessage_resume env (svc\<lparr>analyzeContext_svc := a\<rparr>) P h i c st
     = handleSendMessage_resume env svc P h i c st"
  by (simp add: handleSendMessage_resume_def)

lemma handleSendMessage_resume_effect:
  assumes "executeSuggestion_svc svc P c standardSuggestion h i = (response, calls')"
  shows "requests (handleSendMessage_resume env svc P h i c st) = calls'"
    and "\<exists>r. messages (handleSendMessage_resume env svc P h i c st) = messages st @ [r]
             \<and> role r = RoleModel \<and> content r = text_res response"
  using assms
  by (simp_all add: handleSendMessage_resume_def Let_def newMessage_def)

subsection \<open>Input with the engine off\<close>

text \<open>
  Claim C9. When an input that is not blank is submitted with the engine off, and no
  execution is running, \<open>handleSendMessage\<close> does not call the analyzer: its result is the
  same whatever \<open>analyzeContext\<close> is, the requests issued are those of one call of
  \<open>executeSuggestion\<close> on the fixed standard reply suggestion, the history and the input, and
  with either version of the service none of them carries the analyzer's response schema.
  The conversation grows by the user's message and by exactly one model message, which
  holds the text of that call's result; the log and the suggestion set are untouched.
\<close>

theorem engine_off_reply:
  assumes "\<not> engineActive st" and "trim (input st) \<noteq> []" and "\<not> isExecuting (engineState st)"
  shows "(case executeSuggestion_svc svc P (requests st) standardSuggestion (messages st)
                (input st) of
            (response, calls') \<Rightarrow>
              (let st' = handleSendMessage env svc P st
               in (\<forall>a. handleSendMessage env (svc\<lparr>analyzeContext_svc := a\<rparr>) P st = st')
                \<and> requests st' = calls'
                \<and> (\<exists>u r. messages st' = messages st @ [u, r]
                      \<and> role u = RoleUser \<and> content u = input st
                      \<and> role r = RoleModel \<and> content r = text_res response)
                \<and> logs (engineState st') = logs (engineState st)
                \<and> currentSuggestions (engineState st') = currentSuggestions (engineState st)
                \<and> isAnalyzing (engineState st') = isAnalyzing (engineState st)
                \<and> \<not> isExecuting (engineState st')))
         \<and> (\<forall>J r. r \<in> set (drop (length (requests st))
                              (requests (handleSendMessage env (geminiService J) P st)))
               \<longrightarrow> responseSchema (config r) = None)
         \<and> (\<forall>J r. r \<in> set (drop (length (requests st))
                              (requests (handleSendMessage env (geminiService_tools J) P st)))
               \<longrightarrow> responseSchema (config r) = None)"
proof -
  obtain response calls' where
    e: "executeSuggestion_svc svc P (requests st) standardSuggestion (messages st) (input st)
          = (response, calls')"
    by (cases "executeSuggestion_svc svc P (requests st) standardSuggestion (messages st)
          (input st)")
  let ?st1 = "(setEngineState (\<lambda>prev. prev\<lparr>isExecuting := True\<rparr>)
                  ((setMessages_append (newMessage env st RoleUser (input st) None) st)
                     \<lparr>input := []\<rparr>))
                \<lparr>requests := requests st
                   @ [executeSuggestion_request svc standardSuggestion (messages st)
                        (input st)]\<rparr>"
  note eff = handleSendMessage_resume_effect [where env = env and st = ?st1, OF e]
  have A: "\<forall>a. handleSendMessage env (svc\<lparr>analyzeContext_svc := a\<rparr>) P st
              = handleSendMessage env svc P st"
    by (simp add: handleSendMessage_off [OF assms] handleSendMessage_resume_svc)
  have B: "requests (handleSendMessage env svc P st) = calls'"
    using eff(1) by (simp add: handleSendMessage_off [OF assms])
  have C: "\<exists>u r. messages (handleSendMessage env svc P st) = messages st @ [u, r]
                      \<and> role u = RoleUser \<and> content u = input st
                      \<and> role r = RoleModel \<and> content r = text_res response"
    using eff(2) by (auto simp add: handleSendMessage_off [OF assms] newMessage_def)
  have D: "logs (engineState (handleSendMessage env svc P st)) = logs (engineState st)"
    "currentSuggestions (engineState (handleSendMessage env svc P st))
       = currentSuggestions (engineState st)"
    "isAnalyzing (engineState (handleSendMessage env svc P st)) = isAnalyzing (engineState st)"
    "\<not> isExecuting (engineState (handleSendMessage env svc P st))"
    by (simp_all add: handleSendMessage_off [OF assms] handleSendMessage_resume_proj)
  have E: "responseSchema (config r) = None"
    if "r \<in> set (drop (length (requests st))
                   (requests (handleSendMessage env (geminiService J) P st)))" for J r
  proof -
    have "requests (handleSendMessage env (geminiService J) P st)
            = requests st @ [firstRequest standardSuggestion (messages st) (input st)]"
      using executeSuggestion_requests [of P "requests st" standardSuggestion "messages st" "input st"]
      by (simp add: handleSendMessage_off [OF assms] handleSendMessage_resume_def Let_def
          geminiService_def case_prod_beta)
    with that show ?thesis
      by (simp add: firstRequest_def route_def Let_def no_config_def standardSuggestion_def)
  qed
  have F: "responseSchema (config r) = None"
    if "r \<in> set (drop (length (requests st))
                   (requests (handleSendMessage env (geminiService_tools J) P st)))" for J r
  proof -
    have "requests (handleSendMessage env (geminiService_tools J) P st)
            = snd (executeSuggestion_tools P (requests st) standardSuggestion (messages st)
                (input st))"
      by (simp add: handleSendMessage_off [OF assms] handleSendMessage_resume_def Let_def
          geminiService_tools_def case_prod_beta)
    with that have "r = firstRequest_tools standardSuggestion (messages st) (input st)
         \<or> r = followUpRequest standardSuggestion (messages st) (input st)"
      by (simp add: executeSuggestion_tools_requests split: sum.splits if_splits)
    then show ?thesis
      by (auto simp add: firstRequest_tools_def followUpRequest_def route_tools_def Let_def
          no_config_def standardSuggestion_def isComplex_def needsSearch_def)
  qed
  from A B C D E F show ?thesis
    unfolding e Let_def by simp
qed

lemma handleSendMessage_off_requests:
  assumes "\<not> engineActive st" and "trim (input st) \<noteq> []" and "\<not> isExecuting (engineState st)"
  shows "requests (handleSendMessage env (geminiService J) P st)
            = requests st @ [firstRequest standardSuggestion (messages st) (input st)]"
    and "requests (handleSendMessage env (geminiService_tools J) P st)
            = snd (executeSuggestion_tools P (requests st) standardSuggestion (messages st)
                (input st))"
  using executeSuggestion_requests [of P "requests st" standardSuggestion "messages st" "input st"]
  by (simp_all add: handleSendMessage_off [OF assms] handleSendMessage_resume_def Let_def
      geminiService_def geminiService_tools_def case_prod_beta)

lemma standard_requests:
  "model (firstRequest standardSuggestion h i) = ''gemini-2.5-flash''"
  "tools (config (firstRequest standardSuggestion h i)) = Some [GoogleSearch]"
  "thinkingConfig (config (firstRequest standardSuggestion h i)) = None"
  "model (firstRequest_tools standardSuggestion h i) = ''gemini-2.5-flash''"
  "tools (config (firstRequest_tools standardSuggestion h i))
     = Some [FunctionDeclarations [searchDriveTool]]"
  "thinkingConfig (config (firstRequest_tools standardSuggestion h i)) = None"
  by (simp_all add: firstRequest_def firstRequest_tools_def route_def route_tools_def Let_def
      no_config_def standardSuggestion_def isComplex_def needsSearch_def)

text \<open>
  Claim C10. The standard reply suggestion has type Expand. So the request that a
  submission with the engine off issues first names the fast model, carries no reasoning
  budget and has tools enabled: web search in the first version of the service, the
  \<open>searchDrive\<close> function in the second. In the second version, when the provider answers
  that request with a \<open>searchDrive\<close> call, the follow-up request of the tool round-trip is
  issued as well.
\<close>

theorem standard_reply_uses_tools:
  assumes "\<not> engineActive st" and "trim (input st) \<noteq> []" and "\<not> isExecuting (engineState st)"
  shows "type standardSuggestion = ''Expand''
     \<and> requests (handleSendMessage env (geminiService J) P st)
         = requests st @ [firstRequest standardSuggestion (messages st) (input st)]
     \<and> model (firstRequest standardSuggestion (messages st) (input st)) = ''gemini-2.5-flash''
     \<and> tools (config (firstRequest standardSuggestion (messages st) (input st)))
         = Some [GoogleSearch]
     \<and> thinkingConfig (config (firstRequest standardSuggestion (messages st) (input st))) = None
     \<and> (\<exists>rest. requests (handleSendMessage env (geminiService_tools J) P st)
           = requests st @ firstRequest_tools standardSuggestion (messages st) (input st) # rest)
     \<and> model (firstRequest_tools standardSuggestion (messages st) (input st))
         = ''gemini-2.5-flash''
     \<and> tools (config (firstRequest_tools standardSuggestion (messages st) (input st)))
         = Some [FunctionDeclarations [searchDriveTool]]
     \<and> thinkingConfig (config (firstRequest_tools standardSuggestion (messages st) (input st)))
         = None
     \<and> (\<forall>response.
           P (requests st @ [firstRequest_tools standardSuggestion (messages st) (input st)])
             = Inr response \<and> requestsSearchDrive response \<longrightarrow>
           requests (handleSendMessage env (geminiService_tools J) P st)
             = requests st @ [firstRequest_tools standardSuggestion (messages st) (input st),
                              followUpRequest standardSuggestion (messages st) (input st)])"
proof -
  note r = handleSendMessage_off_requests [where env = env and J = J and P = P, OF assms]
  have 1: "type standardSuggestion = ''Expand''"
    by (simp add: standardSuggestion_def)
  have 2: "\<exists>rest. requests (handleSendMessage env (geminiService_tools J) P st)
           = requests st @ firstRequest_tools standardSuggestion (messages st) (input st) # rest"
    by (simp add: r(2) executeSuggestion_tools_requests)
  have 3: "\<forall>response.
           P (requests st @ [firstRequest_tools standardSuggestion (messages st) (input st)])
             = Inr response \<and> requestsSearchDrive response \<longrightarrow>
           requests (handleSendMessage env (geminiService_tools J) P st)
             = requests st @ [firstRequest_tools standardSuggestion (messages st) (input st),
                              followUpRequest standardSuggestion (messages st) (input st)]"
    by (simp add: r(2) executeSuggestion_tools_requests)
  from 1 2 3 r(1) standard_requests [of "messages st" "input st"] show ?thesis
    by simp
qed

lemma trim_hi: "trim ''hi'' \<noteq> []"
  by (subst trim_keep) (simp_all add: whiteSpaceCodes_def)

lemma offState_proj:
  "\<not> engineActive offState" "trim (input offState) \<noteq> []"
  "\<not> isExecuting (engineState offState)" "messages offState = []" "requests offState = []"
  "input offState = ''hi''" "logs (engineState offState) = []"
  using trim_hi by (simp_all add: offState_def initialState_def)

text \<open>The theorem on the input \<open>hi\<close> and a provider that answers with a \<open>searchDrive\<close> call.\<close>

theorem standard_reply_uses_tools_witness:
  "\<not> engineActive offState \<and> trim (input offState) \<noteq> []
   \<and> \<not> isExecuting (engineState offState)
   \<and> requestsSearchDrive (functionCallResponse ''searchDrive'')
   \<and> requests (handleSendMessage sampleEnv (geminiService_tools sampleParse)
        (always (Inr (functionCallResponse ''searchDrive''))) offState)
      = [firstRequest_tools standardSuggestion [] ''hi'',
         followUpRequest standardSuggestion [] ''hi'']
   \<and> requests (handleSendMessage sampleEnv (geminiService sampleParse)
        (always (Inr (functionCallResponse ''searchDrive''))) offState)
      = [firstRequest standardSuggestion [] ''hi'']
   \<and> tools (config (firstRequest standardSuggestion [] ''hi'')) = Some [GoogleSearch]"
proof -
  have y: "requestsSearchDrive (functionCallResponse ''searchDrive'')"
    by (simp add: requestsSearchDrive_def functionCall_of_sample)
  from standard_reply_uses_tools [where env = sampleEnv and J = sampleParse
      and P = "always (Inr (functionCallResponse ''searchDrive''))", OF offState_proj(1-3)]
    y offState_proj trim_hi
  show ?thesis
    by simp
qed

text \<open>The theorem on the input \<open>hi\<close> and a provider that answers \<open>Hello!\<close>.\<close>

theorem engine_off_reply_witness:
  "\<not> engineActive offState \<and> trim (input offState) \<noteq> []
   \<and> \<not> isExecuting (engineState offState)
   \<and> map role (messages (handleSendMessage sampleEnv sampleService
        (always (Inr (textResponse ''Hello!''))) offState)) = [RoleUser, RoleModel]
   \<and> map content (messages (handleSendMessage sampleEnv sampleService
        (always (Inr (textResponse ''Hello!''))) offState)) = [''hi'', ''Hello!'']
   \<and> requests (handleSendMessage sampleEnv sampleService
        (always (Inr (textResponse ''Hello!''))) offState)
      = [firstRequest standardSuggestion [] ''hi'']
   \<and> responseSchema (config (firstRequest standardSuggestion [] ''hi'')) = None
   \<and> logs (engineState (handleSendMessage sampleEnv sampleService
        (always (Inr (textResponse ''Hello!''))) offState)) = []"
proof -
  have x: "executeSuggestion_svc sampleService (always (Inr (textResponse ''Hello!'')))
             (requests offState) standardSuggestion (messages offState) (input offState)
           = (\<lparr>text_res = ''Hello!'', modelUsed = fst (route (type standardSuggestion)),
               sourceUrls = None\<rparr>, [firstRequest standardSuggestion [] ''hi''])"
    by (simp add: sampleService_def geminiService_def executeSuggestion_unfold offState_proj
        textResponse_def or_default_def extractSourceUrls_def groundingChunks_of_def
        first_opt_def)
  note t = engine_off_reply [where svc = sampleService
      and P = "always (Inr (textResponse ''Hello!''))" and env = sampleEnv,
      OF offState_proj(1-3)]
  have s: "responseSchema (config (firstRequest standardSuggestion [] ''hi'')) = None"
    by (simp add: firstRequest_def route_def Let_def no_config_def standardSuggestion_def)
  from t s show ?thesis
    unfolding x Let_def by (auto simp add: offState_proj trim_hi)
qed

end
